theory Spec2Isabelle
  imports Main
begin

section \<open>The client connection of heavyai (\<open>heavyai/connection.py\<close>)\<close>

text \<open>
  The class \<open>Connection\<close> moves tables between Python and a HeavyDB server. Every
  method is a sequence of calls to collaborators (the Thrift client, the shared-memory
  primitives, pyarrow) with a little control flow around them. The model keeps that
  shape: a method is a function from the world before the call to a result and the world
  after it; a raised exception is the left summand of the result; every call that leaves
  the process (a Thrift request, a shared-memory system call) is appended to a trace.
  What a collaborator answers is a parameter (\<open>env\<close>), and the answer to a request may
  depend on everything that was requested before it.
\<close>

subsection \<open>Python values and exceptions\<close>

text \<open>
  The arguments \<open>method\<close> and \<open>create\<close> of \<open>load_table\<close> are compared with string and
  boolean literals, so they are modelled as Python values with Python's \<open>==\<close>, \<open>in\<close> and
  truth value (\<open>True == 1\<close>, \<open>False == 0\<close>).
\<close>

datatype py_value = PyStr string | PyBool bool | PyInt int | PyNone

fun py_eq :: "py_value \<Rightarrow> py_value \<Rightarrow> bool" where
  "py_eq (PyStr s) (PyStr t) = (s = t)"
| "py_eq (PyBool a) (PyBool b) = (a = b)"
| "py_eq (PyInt i) (PyInt j) = (i = j)"
| "py_eq (PyBool a) (PyInt j) = ((if a then 1 else 0) = j)"
| "py_eq (PyInt i) (PyBool b) = (i = (if b then 1 else 0))"
| "py_eq PyNone PyNone = True"
| "py_eq _ _ = False"

fun py_in :: "py_value \<Rightarrow> py_value list \<Rightarrow> bool" where
  "py_in v [] = False"
| "py_in v (x # xs) = (py_eq v x \<or> py_in v xs)"

fun truthy :: "py_value \<Rightarrow> bool" where
  "truthy (PyStr s) = (s \<noteq> [])"
| "truthy (PyBool b) = b"
| "truthy (PyInt i) = (i \<noteq> 0)"
| "truthy PyNone = False"

text \<open>
  The exceptions the module raises itself, one constructor per \<open>raise\<close> (and one for the
  failed attribute lookup \<open>df.get_tdf\<close>), and \<open>Raised\<close> for an exception that comes out
  of a collaborator and passes through unchanged.
\<close>

datatype error =
    ValueError_create
  | ValueError_columns nat nat
  | TypeError_method
  | TypeError_unknown_type
  | ImportError_cudf
  | RuntimeError_transport
  | AttributeError_get_tdf
  | Raised string

subsection \<open>Thrift types\<close>

text \<open>
  The Thrift declarations are generated code outside this module. The client reads three
  fields of a \<open>TDataFrame\<close>, compares the transport with two named constants of
  \<open>TArrowTransport\<close> and passes the two constants of \<open>TDeviceType\<close>; a transport value
  that is neither named constant is \<open>Transport_other\<close>.
\<close>

type_synonym bytes = string

record TDataFrame =
  df_buffer :: bytes
  df_handle :: bytes
  df_size :: int

datatype TArrowTransport = WIRE | SHARED_MEMORY | Transport_other int

datatype TDeviceType = CPU | GPU

record TColumnType =
  col_name :: string
  col_type :: string

record ColumnDetails =
  name :: string
  type_name :: string

subsection \<open>Tables\<close>

record Table =
  schema_names :: "string list"
  table_rows :: "py_value list list"

text \<open>
  A data frame, with the two things the release path looks at: whether the methods
  \<open>set_tdf\<close>/\<open>get_tdf\<close> have been bound to the object, and the attribute they store.
\<close>

record DataFrame =
  columns :: "string list"
  row_index :: "py_value list"
  row_values :: "py_value list list"
  tdf_methods :: bool
  tdf_attr :: "TDataFrame option"

datatype data =
    PdDataFrame DataFrame
  | PaTable Table
  | PaRecordBatch Table
  | Rows "py_value list list"
  | Other string

text \<open>\<open>tbl.to_pandas()\<close>: a fresh frame with a range index and no extra attribute.\<close>

definition to_pandas :: "Table \<Rightarrow> DataFrame" where
  "to_pandas tbl =
     \<lparr>columns = schema_names tbl,
      row_index = map (\<lambda>i. PyInt (int i)) [0..<length (table_rows tbl)],
      row_values = table_rows tbl,
      tdf_methods = False,
      tdf_attr = None\<rparr>"

text \<open>\<open>data.itertuples(index=preserve_index, name=None)\<close>.\<close>

definition itertuples :: "DataFrame \<Rightarrow> bool \<Rightarrow> py_value list list" where
  "itertuples df with_index =
     (if with_index then map (\<lambda>(i, r). i # r) (zip (row_index df) (row_values df))
      else row_values df)"

text \<open>
  Modelled from the spec: \<open>set_tdf\<close> and \<open>get_tdf\<close> (module \<open>_mutators\<close>) are not among
  the sources. Section 3: the retrieved table is tagged with the descriptor that produced
  it, and the tag is used only to drive release. \<open>bind_tdf_methods\<close> stands for the two
  assignments \<open>df.set_tdf = MethodType(set_tdf, df)\<close> and
  \<open>df.get_tdf = MethodType(get_tdf, df)\<close>. Calling \<open>df.get_tdf()\<close> on an object that has
  no such attribute is Python's \<open>AttributeError\<close>; so is reading a tag that was never set.
\<close>

definition bind_tdf_methods :: "DataFrame \<Rightarrow> DataFrame" where
  "bind_tdf_methods df = df\<lparr>tdf_methods := True\<rparr>"

definition set_tdf :: "DataFrame \<Rightarrow> TDataFrame \<Rightarrow> DataFrame" where
  "set_tdf df tdf = df\<lparr>tdf_attr := Some tdf\<rparr>"

definition get_tdf :: "DataFrame \<Rightarrow> error + TDataFrame" where
  "get_tdf df =
     (if \<not> tdf_methods df then Inl AttributeError_get_tdf
      else case tdf_attr df of
             None \<Rightarrow> Inl AttributeError_get_tdf
           | Some tdf \<Rightarrow> Inr tdf)"

subsection \<open>The world: what left the process, and the connection's own field\<close>

datatype event =
    Rpc_get_tables
  | Rpc_create_table string "TColumnType list"
  | Rpc_get_table_details string
  | Rpc_load_table_binary_arrow string bytes "string list"
  | Rpc_load_table_binary_columnar string bytes "string list"
  | Rpc_load_table string "py_value list list" "string list"
  | Rpc_sql_execute_df string int int int TArrowTransport
  | Rpc_sql_execute_gdf string int int
  | Rpc_deallocate_df TDataFrame TDeviceType int
  | Call_register_runtime_udfs
  | Call_load_buffer bytes int
  | Call_shmdt nat

record world =
  trace :: "event list"
  conn_tdf :: "TDataFrame option"

text \<open>
  The collaborators. A field whose first argument is an \<open>event list\<close> answers a request
  and is given the trace before that request. The session handle is the same in every
  request and is left out.
\<close>

record env =
  client_get_tables :: "event list \<Rightarrow> error + string list"
  client_create_table :: "event list \<Rightarrow> string \<Rightarrow> TColumnType list \<Rightarrow> error + unit"
  client_get_table_details :: "event list \<Rightarrow> string \<Rightarrow> error + TColumnType list"
  client_load_table_binary_arrow ::
    "event list \<Rightarrow> string \<Rightarrow> bytes \<Rightarrow> string list \<Rightarrow> error + unit"
  client_load_table_binary_columnar ::
    "event list \<Rightarrow> string \<Rightarrow> bytes \<Rightarrow> string list \<Rightarrow> error + unit"
  client_load_table ::
    "event list \<Rightarrow> string \<Rightarrow> py_value list list \<Rightarrow> string list \<Rightarrow> error + unit"
  client_sql_execute_df ::
    "event list \<Rightarrow> string \<Rightarrow> int \<Rightarrow> int \<Rightarrow> int \<Rightarrow> TArrowTransport \<Rightarrow> error + TDataFrame"
  client_sql_execute_gdf :: "event list \<Rightarrow> string \<Rightarrow> int \<Rightarrow> int \<Rightarrow> error + TDataFrame"
  client_deallocate_df ::
    "event list \<Rightarrow> TDataFrame \<Rightarrow> TDeviceType \<Rightarrow> int \<Rightarrow> error + unit"
  base_register_runtime_udfs :: "event list \<Rightarrow> error + unit"
  ipc_load_buffer :: "event list \<Rightarrow> bytes \<Rightarrow> int \<Rightarrow> error + (bytes \<times> nat)"
  pa_read_all :: "bytes \<Rightarrow> error + Table"
  gpu_read_table :: "TDataFrame \<Rightarrow> error + Table"
  cudf_importable :: bool
  bind_parameters :: "string \<Rightarrow> (string \<times> py_value) list \<Rightarrow> error + string"
  build_row_desc :: "data \<Rightarrow> bool \<Rightarrow> error + TColumnType list"
  extract_column_details :: "TColumnType list \<Rightarrow> error + ColumnDetails list"
  serialize_arrow_payload :: "data \<Rightarrow> ColumnDetails list \<Rightarrow> bool \<Rightarrow> error + bytes"
  build_input_columnar ::
    "DataFrame \<Rightarrow> bool \<Rightarrow> int \<Rightarrow> ColumnDetails list \<Rightarrow> string list \<Rightarrow> error + bytes list"
  build_input_rows :: "data \<Rightarrow> error + py_value list list"

type_synonym 'a io = "world \<Rightarrow> (error + 'a) \<times> world"

text \<open>A request: it is recorded, and answered from the trace before it.\<close>

definition request :: "event \<Rightarrow> (event list \<Rightarrow> error + 'a) \<Rightarrow> 'a io" where
  "request ev answer w = (answer (trace w), w\<lparr>trace := trace w @ [ev]\<rparr>)"

text \<open>A local computation: it may raise, and leaves the world as it is.\<close>

definition local_call :: "error + 'a \<Rightarrow> 'a io" where
  "local_call r w = (r, w)"

text \<open>Sequencing: an exception ends the method with the world reached so far.\<close>

definition and_then :: "'a io \<Rightarrow> ('a \<Rightarrow> 'b io) \<Rightarrow> 'b io" where
  "and_then m f w =
     (case m w of
        (Inl e, w') \<Rightarrow> (Inl e, w')
      | (Inr x, w') \<Rightarrow> f x w')"

definition return_value :: "'a \<Rightarrow> 'a io" where
  "return_value x w = (Inr x, w)"

definition raise :: "error \<Rightarrow> 'a io" where
  "raise e w = (Inl e, w)"

text \<open>A keyword argument that the caller may leave out (\<open>None\<close>) takes its default.\<close>

definition with_default :: "'a \<Rightarrow> 'a option \<Rightarrow> 'a" where
  "with_default d v = (case v of None \<Rightarrow> d | Some x \<Rightarrow> x)"

text \<open>
  \<open>operation.strip()\<close>: white space is removed at both ends. A string holds the UTF-8
  bytes of the Python text. Python's white-space code points are 9-13, 28-32 (one byte),
  U+0085 and U+00A0 (two bytes, \<open>C2 85\<close> and \<open>C2 A0\<close>), and U+1680, U+2000-U+200A, U+2028,
  U+2029, U+202F, U+205F and U+3000 (three bytes).
\<close>

definition is_space1 :: "char \<Rightarrow> bool" where
  "is_space1 a = (let n = (of_char a :: nat) in (9 \<le> n \<and> n \<le> 13) \<or> (28 \<le> n \<and> n \<le> 32))"

definition is_space2 :: "char \<Rightarrow> char \<Rightarrow> bool" where
  "is_space2 a b =
     ((of_char a :: nat) = 0xC2 \<and> ((of_char b :: nat) = 0x85 \<or> (of_char b :: nat) = 0xA0))"

definition is_space3 :: "char \<Rightarrow> char \<Rightarrow> char \<Rightarrow> bool" where
  "is_space3 a b c =
     (let x = (of_char a :: nat); y = (of_char b :: nat); z = (of_char c :: nat) in
        (x = 0xE1 \<and> y = 0x9A \<and> z = 0x80) \<or>
        (x = 0xE2 \<and> y = 0x80 \<and> ((0x80 \<le> z \<and> z \<le> 0x8A) \<or> z = 0xA8 \<or> z = 0xA9 \<or> z = 0xAF)) \<or>
        (x = 0xE2 \<and> y = 0x81 \<and> z = 0x9F) \<or>
        (x = 0xE3 \<and> y = 0x80 \<and> z = 0x80))"

fun lstrip :: "string \<Rightarrow> string" where
  "lstrip (a # b # c # s) =
     (if is_space1 a then lstrip (b # c # s)
      else if is_space2 a b then lstrip (c # s)
      else if is_space3 a b c then lstrip s
      else a # b # c # s)"
| "lstrip [a, b] =
     (if is_space1 a then lstrip [b] else if is_space2 a b then [] else [a, b])"
| "lstrip [a] = (if is_space1 a then [] else [a])"
| "lstrip [] = []"

text \<open>The same from the other end, on the reversed bytes.\<close>

fun lstrip_reversed :: "string \<Rightarrow> string" where
  "lstrip_reversed (c # b # a # s) =
     (if is_space1 c then lstrip_reversed (b # a # s)
      else if is_space2 b c then lstrip_reversed (a # s)
      else if is_space3 a b c then lstrip_reversed s
      else c # b # a # s)"
| "lstrip_reversed [c, b] =
     (if is_space1 c then lstrip_reversed [b] else if is_space2 b c then [] else [c, b])"
| "lstrip_reversed [c] = (if is_space1 c then [] else [c])"
| "lstrip_reversed [] = []"

definition strip :: "string \<Rightarrow> string" where
  "strip s = rev (lstrip_reversed (rev (lstrip s)))"

subsection \<open>Release: \<open>deallocate_ipc\<close> and \<open>deallocate_ipc_gpu\<close>\<close>

definition deallocate_ipc_gpu :: "env \<Rightarrow> DataFrame \<Rightarrow> int option \<Rightarrow> unit io" where
  "deallocate_ipc_gpu env df device_id =
     (let device_id = with_default 0 device_id in
      and_then (local_call (get_tdf df)) (\<lambda>tdf.
        request (Rpc_deallocate_df tdf GPU device_id)
          (\<lambda>h. client_deallocate_df env h tdf GPU device_id)))"

definition deallocate_ipc :: "env \<Rightarrow> DataFrame \<Rightarrow> int option \<Rightarrow> unit io" where
  "deallocate_ipc env df device_id =
     (let device_id = with_default 0 device_id in
      and_then (local_call (get_tdf df)) (\<lambda>tdf.
        request (Rpc_deallocate_df tdf CPU device_id)
          (\<lambda>h. client_deallocate_df env h tdf CPU device_id)))"

subsection \<open>Fetch: \<open>select_ipc_gpu\<close> and \<open>select_ipc\<close>\<close>

text \<open>
  Modelled from the spec: \<open>_parse_tdf_gpu\<close> (module \<open>_utils\<close>) is not among the sources.
  Section 4.4: the segment named by the descriptor is decoded into a table, and the
  returned table is tagged with the originating descriptor for later release. Reading
  the GPU segment is the collaborator \<open>gpu_read_table\<close>.
\<close>

definition parse_tdf_gpu :: "env \<Rightarrow> TDataFrame \<Rightarrow> error + DataFrame" where
  "parse_tdf_gpu env tdf =
     (case gpu_read_table env tdf of
        Inl e \<Rightarrow> Inl e
      | Inr tbl \<Rightarrow> Inr (set_tdf (bind_tdf_methods (to_pandas tbl)) tdf))"

definition register_runtime_udfs :: "env \<Rightarrow> unit io" where
  "register_runtime_udfs env = request Call_register_runtime_udfs (base_register_runtime_udfs env)"

text \<open>\<open>if parameters is not None: operation = str(_bind_parameters(operation, parameters))\<close>\<close>

definition bind_operation :: "env \<Rightarrow> string \<Rightarrow> (string \<times> py_value) list option \<Rightarrow> string io" where
  "bind_operation env operation parameters =
     (case parameters of
        None \<Rightarrow> return_value operation
      | Some ps \<Rightarrow> local_call (bind_parameters env operation ps))"

definition store_tdf :: "TDataFrame \<Rightarrow> unit io" where
  "store_tdf tdf w = (Inr (), w\<lparr>conn_tdf := Some tdf\<rparr>)"

definition select_ipc_gpu ::
  "env \<Rightarrow> string \<Rightarrow> (string \<times> py_value) list option \<Rightarrow> int option \<Rightarrow> int option \<Rightarrow>
   bool option \<Rightarrow> DataFrame io" where
  "select_ipc_gpu env operation parameters device_id first_n release_memory =
     (let device_id = with_default 0 device_id;
          first_n = with_default (- 1) first_n;
          release_memory = with_default True release_memory in
      if \<not> cudf_importable env then raise ImportError_cudf
      else
        and_then (register_runtime_udfs env) (\<lambda>_.
        and_then (bind_operation env operation parameters) (\<lambda>operation.
        and_then (request (Rpc_sql_execute_gdf (strip operation) device_id first_n)
                    (\<lambda>h. client_sql_execute_gdf env h (strip operation) device_id first_n)) (\<lambda>tdf.
        and_then (store_tdf tdf) (\<lambda>_.
        and_then (local_call (parse_tdf_gpu env tdf)) (\<lambda>df.
          if release_memory then
            and_then (deallocate_ipc_gpu env df None) (\<lambda>_. return_value df)
          else return_value df))))))"

text \<open>
  \<open>shmdt(ctypes.cast(df_buf[1], ctypes.c_void_p))\<close>: the detach is recorded; what it
  returns is assigned to \<open>free_df\<close> and never read.
\<close>

definition shmdt :: "nat \<Rightarrow> unit io" where
  "shmdt ptr w = (Inr (), w\<lparr>trace := trace w @ [Call_shmdt ptr]\<rparr>)"

definition select_ipc ::
  "env \<Rightarrow> string \<Rightarrow> (string \<times> py_value) list option \<Rightarrow> int option \<Rightarrow> bool option \<Rightarrow>
   TArrowTransport option \<Rightarrow> DataFrame io" where
  "select_ipc env operation parameters first_n release_memory transport_method =
     (let first_n = with_default (- 1) first_n;
          release_memory = with_default True release_memory;
          transport_method = with_default WIRE transport_method in
      and_then (register_runtime_udfs env) (\<lambda>_.
      and_then (bind_operation env operation parameters) (\<lambda>operation.
      and_then (request (Rpc_sql_execute_df (strip operation) 0 0 first_n transport_method)
                  (\<lambda>h. client_sql_execute_df env h (strip operation) 0 0 first_n transport_method))
        (\<lambda>tdf.
      and_then (store_tdf tdf) (\<lambda>_.
        if transport_method = WIRE then
          and_then (local_call (pa_read_all env (df_buffer tdf))) (\<lambda>tbl.
            return_value (to_pandas tbl))
        else if transport_method = SHARED_MEMORY then
          and_then (request (Call_load_buffer (df_handle tdf) (df_size tdf))
                      (\<lambda>h. ipc_load_buffer env h (df_handle tdf) (df_size tdf))) (\<lambda>df_buf.
          and_then (local_call (pa_read_all env (fst df_buf))) (\<lambda>tbl.
          and_then (return_value (set_tdf (bind_tdf_methods (to_pandas tbl)) tdf)) (\<lambda>df.
          and_then (shmdt (snd df_buf)) (\<lambda>_.
            if release_memory then
              and_then (deallocate_ipc env df None) (\<lambda>_. return_value df)
            else return_value df))))
        else raise RuntimeError_transport)))))"

subsection \<open>Load: \<open>create_table\<close>, \<open>get_table_details\<close> and the three loaders\<close>

text \<open>The request also carries the constant \<open>TCreateParams(False)\<close>.\<close>

definition create_table :: "env \<Rightarrow> string \<Rightarrow> data \<Rightarrow> bool \<Rightarrow> unit io" where
  "create_table env table_name data preserve_index =
     and_then (local_call (build_row_desc env data preserve_index)) (\<lambda>row_desc.
       request (Rpc_create_table table_name row_desc)
         (\<lambda>h. client_create_table env h table_name row_desc))"

definition get_tables :: "env \<Rightarrow> string list io" where
  "get_tables env = request Rpc_get_tables (client_get_tables env)"

definition get_table_details :: "env \<Rightarrow> string \<Rightarrow> ColumnDetails list io" where
  "get_table_details env table_name =
     and_then (request (Rpc_get_table_details table_name)
                 (\<lambda>h. client_get_table_details env h table_name)) (\<lambda>row_desc.
       local_call (extract_column_details env row_desc))"

definition load_table_rowwise :: "env \<Rightarrow> string \<Rightarrow> data \<Rightarrow> string list \<Rightarrow> unit io" where
  "load_table_rowwise env table_name data column_names =
     and_then (local_call (build_input_rows env data)) (\<lambda>input_data.
       request (Rpc_load_table table_name input_data column_names)
         (\<lambda>h. client_load_table env h table_name input_data column_names))"

text \<open>The loop \<open>for cols in input_cols\<close>: one request per batch, in order.\<close>

fun load_input_cols :: "env \<Rightarrow> string \<Rightarrow> string list \<Rightarrow> bytes list \<Rightarrow> unit io" where
  "load_input_cols env table_name column_names [] = return_value ()"
| "load_input_cols env table_name column_names (cols # input_cols) =
     and_then (request (Rpc_load_table_binary_columnar table_name cols column_names)
                 (\<lambda>h. client_load_table_binary_columnar env h table_name cols column_names))
       (\<lambda>_. load_input_cols env table_name column_names input_cols)"

definition load_table_columnar ::
  "env \<Rightarrow> string \<Rightarrow> data \<Rightarrow> bool \<Rightarrow> int \<Rightarrow> bool \<Rightarrow> string list \<Rightarrow> unit io" where
  "load_table_columnar env table_name data preserve_index chunk_size_bytes
       col_names_from_schema column_names =
     (case data of
        PdDataFrame df \<Rightarrow>
          and_then (get_table_details env table_name) (\<lambda>table_details.
            if length table_details \<noteq> length (columns df) then
              raise (ValueError_columns (length (columns df)) (length table_details))
            else
              let col_names =
                    (if col_names_from_schema then map name table_details else columns df);
                  col_types = table_details
              in and_then (local_call (build_input_columnar env df preserve_index
                                         chunk_size_bytes col_types col_names)) (\<lambda>input_cols.
                   load_input_cols env table_name column_names input_cols))
      | _ \<Rightarrow> raise TypeError_unknown_type)"

definition load_table_arrow ::
  "env \<Rightarrow> string \<Rightarrow> data \<Rightarrow> bool \<Rightarrow> string list \<Rightarrow> unit io" where
  "load_table_arrow env table_name data preserve_index load_column_names =
     and_then (get_table_details env table_name) (\<lambda>metadata.
     and_then (local_call (serialize_arrow_payload env data metadata preserve_index)) (\<lambda>payload.
       request (Rpc_load_table_binary_arrow table_name payload load_column_names)
         (\<lambda>h. client_load_table_binary_arrow env h table_name payload load_column_names)))"

subsection \<open>\<open>load_table\<close>\<close>

definition is_DataFrame :: "data \<Rightarrow> bool" where
  "is_DataFrame data = (case data of PdDataFrame _ \<Rightarrow> True | _ \<Rightarrow> False)"

definition is_pa_Table :: "data \<Rightarrow> bool" where
  "is_pa_Table data = (case data of PaTable _ \<Rightarrow> True | _ \<Rightarrow> False)"

definition is_pa_RecordBatch :: "data \<Rightarrow> bool" where
  "is_pa_RecordBatch data = (case data of PaRecordBatch _ \<Rightarrow> True | _ \<Rightarrow> False)"

text \<open>
  The end of \<open>load_table\<close>, reached with \<open>method == 'rows'\<close> and with \<open>method == 'infer'\<close>
  when neither \<open>isinstance\<close> test holds: a data frame becomes its tuples, and the rows go
  out in one request.
\<close>

definition load_table_rows_part ::
  "env \<Rightarrow> string \<Rightarrow> data \<Rightarrow> bool \<Rightarrow> string list \<Rightarrow> unit io" where
  "load_table_rows_part env table_name data preserve_index column_names =
     (let data = (case data of
                    PdDataFrame df \<Rightarrow> Rows (itertuples df preserve_index)
                  | _ \<Rightarrow> data)
      in and_then (local_call (build_input_rows env data)) (\<lambda>input_data.
           request (Rpc_load_table table_name input_data column_names)
             (\<lambda>h. client_load_table env h table_name input_data column_names)))"

text \<open>
  The loaders are called as \<open>self.load_table_arrow(table_name, data)\<close> and
  \<open>self.load_table_columnar(table_name, data)\<close>, so with the defaults of their other
  parameters; \<open>self.create_table(table_name, data)\<close> likewise.
\<close>

definition load_table ::
  "env \<Rightarrow> string \<Rightarrow> data \<Rightarrow> py_value \<Rightarrow> bool \<Rightarrow> py_value \<Rightarrow> string list \<Rightarrow> unit io" where
  "load_table env table_name data method preserve_index create column_names =
     (if \<not> py_in create [PyStr ''infer'', PyBool True, PyBool False] then
        raise ValueError_create
      else
        and_then (if py_eq create (PyStr ''infer'') then
                    and_then (get_tables env) (\<lambda>tables.
                      return_value (PyBool (table_name \<notin> set tables)))
                  else return_value create) (\<lambda>create.
        and_then (if truthy create then create_table env table_name data False
                  else return_value ()) (\<lambda>_.
          if py_eq method (PyStr ''infer'') then
            if is_DataFrame data \<or> is_pa_Table data \<or> is_pa_RecordBatch data then
              load_table_arrow env table_name data False []
            else if is_DataFrame data then
              load_table_columnar env table_name data False 0 False []
            else load_table_rows_part env table_name data preserve_index column_names
          else if py_eq method (PyStr ''arrow'') then
            load_table_arrow env table_name data False []
          else if py_eq method (PyStr ''columnar'') then
            load_table_columnar env table_name data False 0 False []
          else if \<not> py_eq method (PyStr ''rows'') then
            raise TypeError_method
          else load_table_rows_part env table_name data preserve_index column_names)))"

text \<open>
  The creation step of \<open>load_table\<close> (from \<open>if create == 'infer'\<close> to
  \<open>self.create_table(table_name, data)\<close>) on its own, to say what \<open>load_table\<close> has
  done when it reaches the choice of the loader.
\<close>

definition load_table_create_part :: "env \<Rightarrow> string \<Rightarrow> data \<Rightarrow> py_value \<Rightarrow> unit io" where
  "load_table_create_part env table_name data create =
     and_then (if py_eq create (PyStr ''infer'') then
                 and_then (get_tables env) (\<lambda>tables.
                   return_value (PyBool (table_name \<notin> set tables)))
               else return_value create) (\<lambda>create.
       if truthy create then create_table env table_name data False
       else return_value ())"

subsection \<open>Observations on a trace\<close>

definition is_deallocate :: "event \<Rightarrow> bool" where
  "is_deallocate ev = (case ev of Rpc_deallocate_df _ _ _ \<Rightarrow> True | _ \<Rightarrow> False)"

definition is_arrow_load :: "event \<Rightarrow> bool" where
  "is_arrow_load ev = (case ev of Rpc_load_table_binary_arrow _ _ _ \<Rightarrow> True | _ \<Rightarrow> False)"

definition is_columnar_load :: "event \<Rightarrow> bool" where
  "is_columnar_load ev =
     (case ev of Rpc_load_table_binary_columnar _ _ _ \<Rightarrow> True | _ \<Rightarrow> False)"

definition is_rowwise_load :: "event \<Rightarrow> bool" where
  "is_rowwise_load ev = (case ev of Rpc_load_table _ _ _ \<Rightarrow> True | _ \<Rightarrow> False)"

definition is_load_rpc :: "event \<Rightarrow> bool" where
  "is_load_rpc ev = (is_arrow_load ev \<or> is_columnar_load ev \<or> is_rowwise_load ev)"

text \<open>
  A method keeps \<open>P\<close> when it adds no event that satisfies \<open>P\<close>, whatever the world it
  starts from. (A notion for the proofs; the methods themselves do not use it.)
\<close>

definition keeps :: "(event \<Rightarrow> bool) \<Rightarrow> 'a io \<Rightarrow> bool" where
  "keeps P m = (\<forall>w. filter P (trace (snd (m w))) = filter P (trace w))"

subsection \<open>Concrete collaborators: one that accepts everything, two that fail\<close>

definition tdf0 :: TDataFrame where
  "tdf0 = \<lparr>df_buffer = ''stream'', df_handle = ''key'', df_size = 6\<rparr>"

definition tbl0 :: Table where
  "tbl0 = \<lparr>schema_names = [''a''], table_rows = [[PyInt 1]]\<rparr>"

definition row_desc0 :: "TColumnType list" where
  "row_desc0 = [\<lparr>col_name = ''a'', col_type = ''INT''\<rparr>]"

text \<open>
  \<open>build_row_desc\<close> of the concrete collaborators: a row description is built for a
  pandas data frame only, one column type per column, read off the first row.
\<close>

fun column_type_of :: "py_value \<Rightarrow> string" where
  "column_type_of (PyInt i) = ''BIGINT''"
| "column_type_of (PyBool b) = ''BOOL''"
| "column_type_of (PyStr s) = ''STR''"
| "column_type_of PyNone = ''STR''"

definition row_desc_of :: "data \<Rightarrow> bool \<Rightarrow> error + TColumnType list" where
  "row_desc_of data preserve_index =
     (case data of
        PdDataFrame df \<Rightarrow>
          Inr (map (\<lambda>(c, v). \<lparr>col_name = c, col_type = column_type_of v\<rparr>)
                 (zip (columns df) (case row_values df of [] \<Rightarrow> [] | r # _ \<Rightarrow> r)))
      | _ \<Rightarrow> Inl (Raised ''TypeError''))"

definition env_accepting :: env where
  "env_accepting =
     \<lparr>client_get_tables = (\<lambda>h. Inr [''t'']),
      client_create_table = (\<lambda>h t d. Inr ()),
      client_get_table_details = (\<lambda>h t. Inr row_desc0),
      client_load_table_binary_arrow = (\<lambda>h t p c. Inr ()),
      client_load_table_binary_columnar = (\<lambda>h t p c. Inr ()),
      client_load_table = (\<lambda>h t p c. Inr ()),
      client_sql_execute_df = (\<lambda>h q dt di n tm. Inr tdf0),
      client_sql_execute_gdf = (\<lambda>h q di n. Inr tdf0),
      client_deallocate_df = (\<lambda>h t dt di. Inr ()),
      base_register_runtime_udfs = (\<lambda>h. Inr ()),
      ipc_load_buffer = (\<lambda>h k n. Inr (''stream'', 7)),
      pa_read_all = (\<lambda>b. Inr tbl0),
      gpu_read_table = (\<lambda>t. Inr tbl0),
      cudf_importable = True,
      bind_parameters = (\<lambda>q ps. Inr q),
      build_row_desc = row_desc_of,
      extract_column_details =
        (\<lambda>r. Inr (map (\<lambda>c. \<lparr>name = col_name c, type_name = col_type c\<rparr>) r)),
      serialize_arrow_payload = (\<lambda>d m p. Inr ''payload''),
      build_input_columnar = (\<lambda>d p n t c. Inr [''batch'']),
      build_input_rows = (\<lambda>d. Inr [[PyInt 1]])\<rparr>"

text \<open>The stream in the shared segment does not decode.\<close>

definition env_bad_stream :: env where
  "env_bad_stream = env_accepting\<lparr>pa_read_all := (\<lambda>b. Inl (Raised ''ArrowInvalid''))\<rparr>"

text \<open>The server refuses the query.\<close>

definition env_query_refused :: env where
  "env_query_refused =
     env_accepting\<lparr>client_sql_execute_df := (\<lambda>h q dt di n tm. Inl (Raised ''TDBException''))\<rparr>"

definition w0 :: world where
  "w0 = \<lparr>trace = [], conn_tdf = None\<rparr>"

text \<open>The frame that a fetch through shared memory or a GPU returns from \<open>env_accepting\<close>.\<close>

definition df_fetched0 :: DataFrame where
  "df_fetched0 = set_tdf (bind_tdf_methods (to_pandas tbl0)) tdf0"

text \<open>Frames built by the caller, with one column and with two.\<close>

definition df_one_column :: DataFrame where
  "df_one_column =
     \<lparr>columns = [''a''], row_index = [PyInt 0],
      row_values = [[PyInt 1]], tdf_methods = False, tdf_attr = None\<rparr>"


definition df_two_columns :: DataFrame where
  "df_two_columns =
     \<lparr>columns = [''a'', ''b''], row_index = [PyInt 0],
      row_values = [[PyInt 1, PyStr ''x'']], tdf_methods = False, tdf_attr = None\<rparr>"

section \<open>Proofs\<close>

subsection \<open>How the building blocks act on the trace\<close>

lemmas io_defs = request_def local_call_def and_then_def return_value_def raise_def
  with_default_def store_tdf_def shmdt_def register_runtime_udfs_def bind_operation_def

lemmas obs_defs = is_arrow_load_def is_columnar_load_def is_rowwise_load_def is_load_rpc_def
  is_deallocate_def

lemmas env_defs = env_accepting_def env_bad_stream_def env_query_refused_def tdf0_def tbl0_def
  row_desc0_def w0_def df_fetched0_def df_two_columns_def df_one_column_def row_desc_of_def

lemmas space_defs = is_space1_def is_space2_def is_space3_def

lemma strip_select_1: "strip ''SELECT 1'' = ''SELECT 1''"
  by (simp add: strip_def space_defs)

text \<open>A no-break space in front and a line feed behind are both removed.\<close>

lemma strip_no_break_space: "strip (CHR 0xC2 # CHR 0xA0 # ''SELECT 1'' @ [CHR 0x0A]) = ''SELECT 1''"
  by (simp add: strip_def space_defs)

lemma keepsD: "keeps P m \<Longrightarrow> m w = (r, w') \<Longrightarrow> filter P (trace w') = filter P (trace w)"
  by (auto simp: keeps_def dest: spec [where x = w])

lemma keeps_snd: "keeps P m \<Longrightarrow> filter P (trace (snd (m w))) = filter P (trace w)"
  by (simp add: keeps_def)

lemma keeps_return [intro!, simp]: "keeps P (return_value x)"
  by (simp add: keeps_def return_value_def)

lemma keeps_raise [intro!, simp]: "keeps P (raise e)"
  by (simp add: keeps_def raise_def)

lemma keeps_local_call [intro!, simp]: "keeps P (local_call r)"
  by (simp add: keeps_def local_call_def)

lemma keeps_store_tdf [intro!, simp]: "keeps P (store_tdf tdf)"
  by (simp add: keeps_def store_tdf_def)

lemma keeps_request: "\<not> P ev \<Longrightarrow> keeps P (request ev answer)"
  by (simp add: keeps_def request_def)

lemma keeps_shmdt: "\<not> P (Call_shmdt ptr) \<Longrightarrow> keeps P (shmdt ptr)"
  by (simp add: keeps_def shmdt_def)

lemma keeps_and_then:
  assumes "keeps P m" and "\<And>x. keeps P (f x)"
  shows "keeps P (and_then m f)"
proof -
  have "filter P (trace (snd (and_then m f w))) = filter P (trace w)" for w
  proof (cases "m w")
    case (Pair r w1)
    have w1: "filter P (trace w1) = filter P (trace w)"
      using assms(1) Pair by (rule keepsD)
    show ?thesis
    proof (cases r)
      case (Inl e)
      with Pair w1 show ?thesis by (simp add: and_then_def)
    next
      case (Inr x)
      obtain r2 w2 where f: "f x w1 = (r2, w2)" by (cases "f x w1")
      have "filter P (trace w2) = filter P (trace w1)"
        using assms(2) f by (rule keepsD)
      with Pair Inr f w1 show ?thesis by (simp add: and_then_def)
    qed
  qed
  then show ?thesis by (simp add: keeps_def)
qed

lemma keeps_if:
  "(c \<Longrightarrow> keeps P a) \<Longrightarrow> (\<not> c \<Longrightarrow> keeps P b) \<Longrightarrow> keeps P (if c then a else b)"
  by simp

text \<open>A successful sequence is a successful first part followed by a successful rest.\<close>

lemma and_then_Inr:
  "and_then m f w = (Inr y, w') \<longleftrightarrow> (\<exists>x w1. m w = (Inr x, w1) \<and> f x w1 = (Inr y, w'))"
  by (auto simp: and_then_def split: sum.splits prod.splits)

lemma request_eq:
  "request ev answer w = (r, w') \<longleftrightarrow> answer (trace w) = r \<and> w' = w\<lparr>trace := trace w @ [ev]\<rparr>"
  by (auto simp: request_def)

lemma local_call_eq: "local_call v w = (r, w') \<longleftrightarrow> v = r \<and> w' = w"
  by (auto simp: local_call_def)

lemma return_value_eq: "return_value x w = (r, w') \<longleftrightarrow> r = Inr x \<and> w' = w"
  by (auto simp: return_value_def)

lemma raise_eq: "raise e w = (r, w') \<longleftrightarrow> r = Inl e \<and> w' = w"
  by (auto simp: raise_def)

lemmas step_eqs = and_then_Inr request_eq local_call_eq return_value_eq raise_eq

lemma and_then_assoc:
  "and_then (and_then m f) g = and_then m (\<lambda>x. and_then (f x) g)"
  by (rule ext) (simp add: and_then_def split: sum.splits prod.splits)

lemma and_then_return: "and_then (return_value x) f = f x"
  by (rule ext) (simp add: and_then_def return_value_def)

lemma and_then_raise: "and_then (raise e) f = raise e"
  by (rule ext) (simp add: and_then_def raise_def)

subsection \<open>Release\<close>

lemma deallocate_ipc_tagged:
  "get_tdf df = Inr tdf \<Longrightarrow>
   deallocate_ipc env df device_id w =
     (client_deallocate_df env (trace w) tdf CPU (with_default 0 device_id),
      w\<lparr>trace := trace w @ [Rpc_deallocate_df tdf CPU (with_default 0 device_id)]\<rparr>)"
  by (simp add: deallocate_ipc_def io_defs Let_def)

lemma deallocate_ipc_gpu_tagged:
  "get_tdf df = Inr tdf \<Longrightarrow>
   deallocate_ipc_gpu env df device_id w =
     (client_deallocate_df env (trace w) tdf GPU (with_default 0 device_id),
      w\<lparr>trace := trace w @ [Rpc_deallocate_df tdf GPU (with_default 0 device_id)]\<rparr>)"
  by (simp add: deallocate_ipc_gpu_def io_defs Let_def)

lemma get_tdf_fetched: "get_tdf (set_tdf (bind_tdf_methods df) tdf) = Inr tdf"
  by (simp add: get_tdf_def set_tdf_def bind_tdf_methods_def)

lemmas deallocate_ipc_fetched = deallocate_ipc_tagged [OF get_tdf_fetched]

lemmas deallocate_ipc_gpu_fetched = deallocate_ipc_gpu_tagged [OF get_tdf_fetched]

lemma get_tdf_df_fetched0: "get_tdf df_fetched0 = Inr tdf0"
  by (simp add: df_fetched0_def get_tdf_fetched)


text \<open>
  C7. Releasing a table that carries no descriptor tag (a frame the caller built, or one
  that came over the wire: the method \<open>get_tdf\<close> was never bound to it) fails in
  \<open>df.get_tdf()\<close> with the attribute error, for the CPU and for the GPU method alike, and
  the world is as before: no deallocate request, nor any other, was issued.
\<close>

theorem release_untagged_fails_without_request:
  "\<not> tdf_methods df \<Longrightarrow>
   deallocate_ipc env df device_id w = (Inl AttributeError_get_tdf, w) \<and>
   deallocate_ipc_gpu env df device_id w = (Inl AttributeError_get_tdf, w)"
  by (simp add: deallocate_ipc_def deallocate_ipc_gpu_def io_defs get_tdf_def Let_def)

theorem release_untagged_fails_without_request_witness:
  "\<not> tdf_methods df_two_columns \<and>
   deallocate_ipc env_accepting df_two_columns None w0 = (Inl AttributeError_get_tdf, w0) \<and>
   deallocate_ipc_gpu env_accepting df_two_columns (Some 1) w0 = (Inl AttributeError_get_tdf, w0)"
proof -
  have untagged: "\<not> tdf_methods df_two_columns"
    by (simp add: df_two_columns_def)
  then show ?thesis
    using release_untagged_fails_without_request [OF untagged, of env_accepting None w0]
      release_untagged_fails_without_request [OF untagged, of env_accepting "Some 1" w0]
    by simp
qed

text \<open>
  C8, as the code has it. The deallocate request of \<open>deallocate_ipc\<close> carries the device
  kind CPU, that of \<open>deallocate_ipc_gpu\<close> the kind GPU; both carry the tagged descriptor
  and the device id the caller gave, and the constant 0 when the caller gave none.
\<close>

theorem release_request_device:
  "get_tdf df = Inr tdf \<Longrightarrow>
   trace (snd (deallocate_ipc env df None w)) = trace w @ [Rpc_deallocate_df tdf CPU 0] \<and>
   trace (snd (deallocate_ipc env df (Some device_id) w)) =
     trace w @ [Rpc_deallocate_df tdf CPU device_id] \<and>
   trace (snd (deallocate_ipc_gpu env df None w)) = trace w @ [Rpc_deallocate_df tdf GPU 0] \<and>
   trace (snd (deallocate_ipc_gpu env df (Some device_id) w)) =
     trace w @ [Rpc_deallocate_df tdf GPU device_id]"
  by (simp add: deallocate_ipc_tagged deallocate_ipc_gpu_tagged with_default_def)

theorem release_request_device_witness:
  "get_tdf df_fetched0 = Inr tdf0 \<and>
   trace (snd (deallocate_ipc env_accepting df_fetched0 None w0)) =
     [Rpc_deallocate_df tdf0 CPU 0] \<and>
   trace (snd (deallocate_ipc_gpu env_accepting df_fetched0 (Some 3) w0)) =
     [Rpc_deallocate_df tdf0 GPU 3]"
  using get_tdf_df_fetched0
    release_request_device [OF get_tdf_df_fetched0, of env_accepting w0 3]
  by (simp add: w0_def)

text \<open>
  C8, as the claim has it, fails: a result fetched to GPU 1 (and not released by the
  fetch) is released, with no device id given, on device 0.
\<close>

theorem release_default_device_counterexample:
  "fst (select_ipc_gpu env_accepting ''SELECT 1'' None (Some 1) None (Some False) w0)
     = Inr df_fetched0 \<and>
   trace (snd (deallocate_ipc_gpu env_accepting df_fetched0 None
           (snd (select_ipc_gpu env_accepting ''SELECT 1'' None (Some 1) None (Some False) w0))))
     = [Call_register_runtime_udfs,
        Rpc_sql_execute_gdf ''SELECT 1'' 1 (- 1),
        Rpc_deallocate_df tdf0 GPU 0]"
  by (simp add: select_ipc_gpu_def deallocate_ipc_gpu_def parse_tdf_gpu_def io_defs env_defs
      get_tdf_def set_tdf_def bind_tdf_methods_def to_pandas_def strip_select_1 Let_def)

text \<open>
  C2, as the code has it. The client keeps no record of a release. A second release of the
  same tagged table sends a second deallocate request for the same descriptor, and its
  outcome is whatever the server answers to that request; the CPU and the GPU method do
  the same.
\<close>

theorem second_release_sends_second_request:
  "get_tdf df = Inr tdf \<Longrightarrow>
   fst (deallocate_ipc env df d2 (snd (deallocate_ipc env df d1 w))) =
     client_deallocate_df env (trace w @ [Rpc_deallocate_df tdf CPU (with_default 0 d1)])
       tdf CPU (with_default 0 d2) \<and>
   trace (snd (deallocate_ipc env df d2 (snd (deallocate_ipc env df d1 w)))) =
     trace w @ [Rpc_deallocate_df tdf CPU (with_default 0 d1),
                Rpc_deallocate_df tdf CPU (with_default 0 d2)] \<and>
   fst (deallocate_ipc_gpu env df d2 (snd (deallocate_ipc_gpu env df d1 w))) =
     client_deallocate_df env (trace w @ [Rpc_deallocate_df tdf GPU (with_default 0 d1)])
       tdf GPU (with_default 0 d2) \<and>
   trace (snd (deallocate_ipc_gpu env df d2 (snd (deallocate_ipc_gpu env df d1 w)))) =
     trace w @ [Rpc_deallocate_df tdf GPU (with_default 0 d1),
                Rpc_deallocate_df tdf GPU (with_default 0 d2)]"
  by (simp add: deallocate_ipc_tagged deallocate_ipc_gpu_tagged)

theorem second_release_sends_second_request_witness:
  "get_tdf df_fetched0 = Inr tdf0 \<and>
   fst (deallocate_ipc env_accepting df_fetched0 None
         (snd (deallocate_ipc env_accepting df_fetched0 None w0))) = Inr () \<and>
   trace (snd (deallocate_ipc_gpu env_accepting df_fetched0 None
           (snd (deallocate_ipc_gpu env_accepting df_fetched0 None w0)))) =
     [Rpc_deallocate_df tdf0 GPU 0, Rpc_deallocate_df tdf0 GPU 0]"
  using get_tdf_df_fetched0
    second_release_sends_second_request [OF get_tdf_df_fetched0, of env_accepting None None w0]
  by (simp add: w0_def env_accepting_def with_default_def)

text \<open>
  C2, as the claim has it, fails: the table fetched through shared memory is released
  twice; both calls succeed, and two deallocate requests for the one descriptor went out.
\<close>

theorem second_release_counterexample:
  "fst (select_ipc env_accepting ''SELECT 1'' None None (Some False) (Some SHARED_MEMORY) w0)
     = Inr df_fetched0 \<and>
   fst (deallocate_ipc env_accepting df_fetched0 None w0) = Inr () \<and>
   fst (deallocate_ipc env_accepting df_fetched0 None
         (snd (deallocate_ipc env_accepting df_fetched0 None w0))) = Inr () \<and>
   trace (snd (deallocate_ipc env_accepting df_fetched0 None
           (snd (deallocate_ipc env_accepting df_fetched0 None w0))))
     = [Rpc_deallocate_df tdf0 CPU 0, Rpc_deallocate_df tdf0 CPU 0]"
  by (simp add: select_ipc_def deallocate_ipc_def io_defs env_defs
      get_tdf_def set_tdf_def bind_tdf_methods_def to_pandas_def strip_select_1 Let_def)


subsection \<open>Fetch\<close>

lemma keeps_deallocate_select_ipc:
  "release_memory = Some False \<or> transport_method \<noteq> Some SHARED_MEMORY \<Longrightarrow>
   keeps is_deallocate
     (select_ipc env operation parameters first_n release_memory transport_method)"
  unfolding select_ipc_def Let_def register_runtime_udfs_def bind_operation_def
  by (intro keeps_and_then keeps_if keeps_request keeps_shmdt keeps_store_tdf keeps_raise
        keeps_return keeps_local_call)
     (auto simp: is_deallocate_def with_default_def split: option.splits)

lemma keeps_deallocate_select_ipc_gpu:
  "keeps is_deallocate
     (select_ipc_gpu env operation parameters device_id first_n (Some False))"
  unfolding select_ipc_gpu_def Let_def register_runtime_udfs_def bind_operation_def
  by (intro keeps_and_then keeps_if keeps_request keeps_store_tdf keeps_raise
        keeps_return keeps_local_call)
     (auto simp: is_deallocate_def with_default_def split: option.splits)

lemma world_update_eq_trace:
  "w\<lparr>conn_tdf := c, trace := t\<rparr> = w\<lparr>conn_tdf := c', trace := t'\<rparr> \<Longrightarrow> t = t'"
  by (drule arg_cong [where f = trace]) simp

lemma select_ipc_shared_memory_success:
  assumes "select_ipc env operation parameters first_n release_memory (Some SHARED_MEMORY) w
             = (Inr df, w')"
  shows "\<exists>tdf. get_tdf df = Inr tdf \<and>
           filter is_deallocate (trace w') =
             filter is_deallocate (trace w) @
               (if release_memory = Some False then [] else [Rpc_deallocate_df tdf CPU 0])"
proof (cases "with_default True release_memory")
  case True
  with assms show ?thesis
    by (auto simp: select_ipc_def Let_def step_eqs register_runtime_udfs_def bind_operation_def
        store_tdf_def shmdt_def deallocate_ipc_fetched get_tdf_fetched
        is_deallocate_def with_default_def split: option.splits)
next
  case False
  with assms show ?thesis
    by (auto simp: select_ipc_def Let_def step_eqs register_runtime_udfs_def bind_operation_def
        store_tdf_def shmdt_def get_tdf_fetched
        is_deallocate_def with_default_def split: option.splits)
qed

lemma parse_tdf_gpu_Inr:
  "parse_tdf_gpu env tdf = Inr df \<longleftrightarrow>
     (\<exists>tbl. gpu_read_table env tdf = Inr tbl \<and>
            df = set_tdf (bind_tdf_methods (to_pandas tbl)) tdf)"
  by (auto simp: parse_tdf_gpu_def split: sum.splits)

lemma select_ipc_gpu_success:
  assumes "select_ipc_gpu env operation parameters device_id first_n release_memory w
             = (Inr df, w')"
  shows "\<exists>tdf. get_tdf df = Inr tdf \<and>
           filter is_deallocate (trace w') =
             filter is_deallocate (trace w) @
               (if release_memory = Some False then [] else [Rpc_deallocate_df tdf GPU 0])"
proof (cases "with_default True release_memory")
  case True
  with assms show ?thesis
    by (auto simp: select_ipc_gpu_def Let_def step_eqs register_runtime_udfs_def
        bind_operation_def store_tdf_def deallocate_ipc_gpu_fetched
        get_tdf_fetched parse_tdf_gpu_Inr is_deallocate_def with_default_def
        split: option.splits if_splits)
next
  case False
  with assms show ?thesis
    by (auto simp: select_ipc_gpu_def Let_def step_eqs register_runtime_udfs_def
        bind_operation_def store_tdf_def
        get_tdf_fetched parse_tdf_gpu_Inr is_deallocate_def with_default_def
        split: option.splits if_splits)
qed


text \<open>
  C10. A fetch over the wire (the default transport) returns a frame that carries no
  descriptor tag: the \<open>set_tdf\<close>/\<open>get_tdf\<close> methods are not bound and \<open>get_tdf\<close> fails on
  it. The call issues no deallocate request, whatever \<open>release_memory\<close> is; and for every
  transport other than shared memory the whole outcome of \<open>select_ipc\<close> is the same for
  every value of \<open>release_memory\<close>.
\<close>

theorem select_ipc_wire_untagged_no_release:
  "(transport_method = None \<or> transport_method = Some WIRE \<longrightarrow>
      filter is_deallocate (trace (snd (select_ipc env operation parameters first_n
          release_memory transport_method w))) = filter is_deallocate (trace w) \<and>
      (\<forall>df. fst (select_ipc env operation parameters first_n release_memory
                    transport_method w) = Inr df \<longrightarrow>
         \<not> tdf_methods df \<and> tdf_attr df = None \<and> get_tdf df = Inl AttributeError_get_tdf)) \<and>
   (transport_method \<noteq> Some SHARED_MEMORY \<longrightarrow>
      select_ipc env operation parameters first_n release_memory transport_method w =
      select_ipc env operation parameters first_n release_memory' transport_method w)"
proof -
  have no_release:
    "filter is_deallocate (trace (snd (select_ipc env operation parameters first_n
          release_memory transport_method w))) = filter is_deallocate (trace w)"
    if "transport_method = None \<or> transport_method = Some WIRE"
  proof -
    from that have "release_memory = Some False \<or> transport_method \<noteq> Some SHARED_MEMORY"
      by auto
    then show ?thesis
      by (rule keeps_snd [OF keeps_deallocate_select_ipc])
  qed
  have untagged:
    "\<not> tdf_methods df \<and> tdf_attr df = None \<and> get_tdf df = Inl AttributeError_get_tdf"
    if tm: "transport_method = None \<or> transport_method = Some WIRE"
      and ok: "fst (select_ipc env operation parameters first_n release_memory
                  transport_method w) = Inr df" for df
  proof -
    obtain w' where "select_ipc env operation parameters first_n release_memory
                  transport_method w = (Inr df, w')"
      using ok by (cases "select_ipc env operation parameters first_n release_memory
                  transport_method w") simp
    with tm have "\<exists>tbl. df = to_pandas tbl"
      by (auto simp: select_ipc_def Let_def step_eqs register_runtime_udfs_def
          bind_operation_def store_tdf_def with_default_def split: option.splits)
    then show ?thesis
      by (auto simp: to_pandas_def get_tdf_def)
  qed
  have same:
    "select_ipc env operation parameters first_n release_memory transport_method w =
     select_ipc env operation parameters first_n release_memory' transport_method w"
    if not_shared: "transport_method \<noteq> Some SHARED_MEMORY"
  proof -
    consider "with_default WIRE transport_method = WIRE"
      | k where "with_default WIRE transport_method = Transport_other k"
      using not_shared
      by (cases transport_method; cases "with_default WIRE transport_method")
         (simp_all add: with_default_def)
    then show ?thesis
      by cases (simp_all add: select_ipc_def Let_def)
  qed
  from no_release untagged same show ?thesis
    by blast
qed

theorem select_ipc_wire_untagged_no_release_witness:
  "fst (select_ipc env_accepting ''SELECT 1'' None None (Some True) (Some WIRE) w0)
     = Inr (to_pandas tbl0) \<and>
   filter is_deallocate (trace (snd (select_ipc env_accepting ''SELECT 1'' None None
       (Some True) (Some WIRE) w0))) = [] \<and>
   get_tdf (to_pandas tbl0) = Inl AttributeError_get_tdf \<and>
   select_ipc env_accepting ''SELECT 1'' None None (Some True) (Some WIRE) w0 =
   select_ipc env_accepting ''SELECT 1'' None None (Some False) (Some WIRE) w0"
proof -
  have fetched:
    "fst (select_ipc env_accepting ''SELECT 1'' None None (Some True) (Some WIRE) w0)
       = Inr (to_pandas tbl0)"
    by (simp add: select_ipc_def io_defs env_defs Let_def)
  have wire: "Some WIRE = None \<or> Some WIRE = Some WIRE"
    by simp
  have not_shared: "Some WIRE \<noteq> Some SHARED_MEMORY"
    by simp
  note at_wire = select_ipc_wire_untagged_no_release [of "Some WIRE" env_accepting
      "''SELECT 1''" None None "Some True" w0 "Some False"]
  note first = at_wire [THEN conjunct1, THEN mp, OF wire]
  from first [THEN conjunct1]
  have no_release:
    "filter is_deallocate (trace (snd (select_ipc env_accepting ''SELECT 1'' None None
       (Some True) (Some WIRE) w0))) = []"
    by (simp add: w0_def)
  from first [THEN conjunct2, THEN spec, THEN mp, OF fetched]
  have untagged: "get_tdf (to_pandas tbl0) = Inl AttributeError_get_tdf"
    by simp
  note same = at_wire [THEN conjunct2, THEN mp, OF not_shared]
  show ?thesis
    by (rule conjI [OF fetched conjI [OF no_release conjI [OF untagged same]]])
qed

text \<open>
  With release switched on, a fetch is the same fetch with release switched off, followed
  (when that one produced a table) by the release call for that table.
\<close>

lemma select_ipc_release_on:
  assumes "release_memory \<noteq> Some False"
  shows "select_ipc env operation parameters first_n release_memory (Some SHARED_MEMORY) =
           and_then (select_ipc env operation parameters first_n (Some False)
                       (Some SHARED_MEMORY))
             (\<lambda>df. and_then (deallocate_ipc env df None) (\<lambda>_. return_value df))"
proof -
  from assms have "with_default True release_memory"
    by (cases release_memory) (simp_all add: with_default_def)
  then show ?thesis
    by (simp add: select_ipc_def Let_def with_default_def and_then_assoc and_then_return)
qed

lemma select_ipc_gpu_release_on:
  assumes "release_memory \<noteq> Some False"
  shows "select_ipc_gpu env operation parameters device_id first_n release_memory =
           and_then (select_ipc_gpu env operation parameters device_id first_n (Some False))
             (\<lambda>df. and_then (deallocate_ipc_gpu env df None) (\<lambda>_. return_value df))"
proof -
  from assms have "with_default True release_memory"
    by (cases release_memory) (simp_all add: with_default_def)
  then show ?thesis
    by (simp add: select_ipc_gpu_def Let_def with_default_def and_then_assoc and_then_return
        and_then_raise)
qed

lemma and_then_fails: "fst (m w) = Inl e \<Longrightarrow> and_then m f w = m w"
  by (cases "m w") (simp add: and_then_def)

text \<open>
  C9, as the code has it. Release is automatic unless the caller switches it off:
  \<open>release_memory\<close> defaults to \<open>True\<close>, and with it \<open>select_ipc_gpu\<close>, and \<open>select_ipc\<close>
  through shared memory, are the same fetch with \<open>release_memory=False\<close> followed, when
  that fetch produced a table, by the release call for that table. So such a fetch that
  returns a table has sent one deallocate request for that table's descriptor, and one
  that fails before it has a table has sent none. A fetch with \<open>release_memory=False\<close>,
  and a \<open>select_ipc\<close> fetch over another transport than shared memory (as with the default,
  the wire), sends no deallocate request.
\<close>

theorem fetch_releases_unless_switched_off:
  "(release_memory = Some False \<or> transport_method \<noteq> Some SHARED_MEMORY \<longrightarrow>
      filter is_deallocate (trace (snd (select_ipc env operation parameters first_n
          release_memory transport_method w))) = filter is_deallocate (trace w)) \<and>
   (release_memory \<noteq> Some False \<longrightarrow>
      select_ipc env operation parameters first_n release_memory (Some SHARED_MEMORY) w =
        and_then (select_ipc env operation parameters first_n (Some False)
                    (Some SHARED_MEMORY))
          (\<lambda>df. and_then (deallocate_ipc env df None) (\<lambda>_. return_value df)) w \<and>
      (fst (select_ipc env operation parameters first_n (Some False) (Some SHARED_MEMORY) w)
         = Inl e \<longrightarrow>
         select_ipc env operation parameters first_n release_memory (Some SHARED_MEMORY) w =
         select_ipc env operation parameters first_n (Some False) (Some SHARED_MEMORY) w) \<and>
      (\<forall>df. fst (select_ipc env operation parameters first_n release_memory
                    (Some SHARED_MEMORY) w) = Inr df \<longrightarrow>
         (\<exists>tdf d. get_tdf df = Inr tdf \<and>
            filter is_deallocate (trace (snd (select_ipc env operation parameters first_n
                release_memory (Some SHARED_MEMORY) w))) =
              filter is_deallocate (trace w) @ [Rpc_deallocate_df tdf CPU d]))) \<and>
   filter is_deallocate (trace (snd (select_ipc_gpu env operation parameters device_id
       first_n (Some False) w))) = filter is_deallocate (trace w) \<and>
   (release_memory \<noteq> Some False \<longrightarrow>
      select_ipc_gpu env operation parameters device_id first_n release_memory w =
        and_then (select_ipc_gpu env operation parameters device_id first_n (Some False))
          (\<lambda>df. and_then (deallocate_ipc_gpu env df None) (\<lambda>_. return_value df)) w \<and>
      (fst (select_ipc_gpu env operation parameters device_id first_n (Some False) w)
         = Inl e \<longrightarrow>
         select_ipc_gpu env operation parameters device_id first_n release_memory w =
         select_ipc_gpu env operation parameters device_id first_n (Some False) w) \<and>
      (\<forall>df. fst (select_ipc_gpu env operation parameters device_id first_n release_memory w)
              = Inr df \<longrightarrow>
         (\<exists>tdf d. get_tdf df = Inr tdf \<and>
            filter is_deallocate (trace (snd (select_ipc_gpu env operation parameters device_id
                first_n release_memory w))) =
              filter is_deallocate (trace w) @ [Rpc_deallocate_df tdf GPU d])))"
proof -
  have off:
    "filter is_deallocate (trace (snd (select_ipc env operation parameters first_n
          release_memory transport_method w))) = filter is_deallocate (trace w)"
    if "release_memory = Some False \<or> transport_method \<noteq> Some SHARED_MEMORY"
    using that by (rule keeps_snd [OF keeps_deallocate_select_ipc])
  have gpu_off:
    "filter is_deallocate (trace (snd (select_ipc_gpu env operation parameters device_id
       first_n (Some False) w))) = filter is_deallocate (trace w)"
    by (rule keeps_snd [OF keeps_deallocate_select_ipc_gpu])
  have on:
    "select_ipc env operation parameters first_n release_memory (Some SHARED_MEMORY) w =
        and_then (select_ipc env operation parameters first_n (Some False)
                    (Some SHARED_MEMORY))
          (\<lambda>df. and_then (deallocate_ipc env df None) (\<lambda>_. return_value df)) w"
    if "release_memory \<noteq> Some False"
    using select_ipc_release_on [OF that] by (rule fun_cong)
  have gpu_on:
    "select_ipc_gpu env operation parameters device_id first_n release_memory w =
        and_then (select_ipc_gpu env operation parameters device_id first_n (Some False))
          (\<lambda>df. and_then (deallocate_ipc_gpu env df None) (\<lambda>_. return_value df)) w"
    if "release_memory \<noteq> Some False"
    using select_ipc_gpu_release_on [OF that] by (rule fun_cong)
  have fails:
    "select_ipc env operation parameters first_n release_memory (Some SHARED_MEMORY) w =
     select_ipc env operation parameters first_n (Some False) (Some SHARED_MEMORY) w"
    if "release_memory \<noteq> Some False"
      and "fst (select_ipc env operation parameters first_n (Some False) (Some SHARED_MEMORY) w)
         = Inl e"
    unfolding on [OF that(1)] using that(2) by (rule and_then_fails)
  have gpu_fails:
    "select_ipc_gpu env operation parameters device_id first_n release_memory w =
     select_ipc_gpu env operation parameters device_id first_n (Some False) w"
    if "release_memory \<noteq> Some False"
      and "fst (select_ipc_gpu env operation parameters device_id first_n (Some False) w)
         = Inl e"
    unfolding gpu_on [OF that(1)] using that(2) by (rule and_then_fails)
  have returned:
    "\<exists>tdf d. get_tdf df = Inr tdf \<and>
            filter is_deallocate (trace (snd (select_ipc env operation parameters first_n
                release_memory (Some SHARED_MEMORY) w))) =
              filter is_deallocate (trace w) @ [Rpc_deallocate_df tdf CPU d]"
    if rm: "release_memory \<noteq> Some False"
      and ok: "fst (select_ipc env operation parameters first_n release_memory
                (Some SHARED_MEMORY) w) = Inr df" for df
  proof -
    obtain w' where run: "select_ipc env operation parameters first_n release_memory
                (Some SHARED_MEMORY) w = (Inr df, w')"
      using ok by (cases "select_ipc env operation parameters first_n release_memory
                (Some SHARED_MEMORY) w") simp
    from select_ipc_shared_memory_success [OF run] rm run show ?thesis
      by auto
  qed
  have gpu_returned:
    "\<exists>tdf d. get_tdf df = Inr tdf \<and>
            filter is_deallocate (trace (snd (select_ipc_gpu env operation parameters device_id
                first_n release_memory w))) =
              filter is_deallocate (trace w) @ [Rpc_deallocate_df tdf GPU d]"
    if rm: "release_memory \<noteq> Some False"
      and ok: "fst (select_ipc_gpu env operation parameters device_id first_n release_memory w)
              = Inr df" for df
  proof -
    obtain w' where run: "select_ipc_gpu env operation parameters device_id first_n
                release_memory w = (Inr df, w')"
      using ok by (cases "select_ipc_gpu env operation parameters device_id first_n
                release_memory w") simp
    from select_ipc_gpu_success [OF run] rm run show ?thesis
      by auto
  qed
  from off gpu_off on gpu_on fails gpu_fails returned gpu_returned show ?thesis
    by blast
qed

theorem fetch_releases_unless_switched_off_witness:
  "fst (select_ipc env_accepting ''SELECT 1'' None None None (Some SHARED_MEMORY) w0)
     = Inr df_fetched0 \<and>
   filter is_deallocate (trace (snd (select_ipc env_accepting ''SELECT 1'' None None
       (Some False) (Some SHARED_MEMORY) w0))) = [] \<and>
   (\<exists>tdf d. get_tdf df_fetched0 = Inr tdf \<and>
      filter is_deallocate (trace (snd (select_ipc env_accepting ''SELECT 1'' None None None
          (Some SHARED_MEMORY) w0))) = [Rpc_deallocate_df tdf CPU d]) \<and>
   select_ipc env_bad_stream ''SELECT 1'' None None None (Some SHARED_MEMORY) w0 =
   select_ipc env_bad_stream ''SELECT 1'' None None (Some False) (Some SHARED_MEMORY) w0"
proof -
  have fetched:
    "fst (select_ipc env_accepting ''SELECT 1'' None None None (Some SHARED_MEMORY) w0)
       = Inr df_fetched0"
    by (simp add: select_ipc_def deallocate_ipc_def io_defs env_defs get_tdf_def set_tdf_def
        bind_tdf_methods_def to_pandas_def Let_def)
  have switched_off:
    "Some False = Some False \<or> Some SHARED_MEMORY \<noteq> Some SHARED_MEMORY"
    by simp
  have switched_on: "(None :: bool option) \<noteq> Some False"
    by simp
  have decode_fails:
    "fst (select_ipc env_bad_stream ''SELECT 1'' None None (Some False) (Some SHARED_MEMORY) w0)
       = Inl (Raised ''ArrowInvalid'')"
    by (simp add: select_ipc_def io_defs env_defs Let_def)
  from fetch_releases_unless_switched_off [of "Some False" "Some SHARED_MEMORY" env_accepting
      "''SELECT 1''" None None w0, THEN conjunct1, THEN mp, OF switched_off]
  have none_sent:
    "filter is_deallocate (trace (snd (select_ipc env_accepting ''SELECT 1'' None None
       (Some False) (Some SHARED_MEMORY) w0))) = []"
    by (simp add: w0_def)
  note on = fetch_releases_unless_switched_off [of None "Some SHARED_MEMORY" env_accepting
      "''SELECT 1''" None None w0, THEN conjunct2, THEN conjunct1, THEN mp, OF switched_on]
  from on [THEN conjunct2, THEN conjunct2, THEN spec, THEN mp, OF fetched]
  have one_sent:
    "\<exists>tdf d. get_tdf df_fetched0 = Inr tdf \<and>
      filter is_deallocate (trace (snd (select_ipc env_accepting ''SELECT 1'' None None None
          (Some SHARED_MEMORY) w0))) = [Rpc_deallocate_df tdf CPU d]"
    by (simp add: w0_def)
  note same = fetch_releases_unless_switched_off [of None "Some SHARED_MEMORY" env_bad_stream
      "''SELECT 1''" None None w0 "Raised ''ArrowInvalid''",
      THEN conjunct2, THEN conjunct1, THEN mp, OF switched_on,
      THEN conjunct2, THEN conjunct1, THEN mp, OF decode_fails]
  show ?thesis
    by (rule conjI [OF fetched conjI [OF none_sent conjI [OF one_sent same]]])
qed

text \<open>
  C9, as the claim has it, fails: \<open>select_ipc_gpu\<close> called with nothing but the query
  returns the table and has sent a deallocate request for it.
\<close>

theorem fetch_default_options_counterexample:
  "fst (select_ipc_gpu env_accepting ''SELECT 1'' None None None None w0) = Inr df_fetched0 \<and>
   filter is_deallocate
     (trace (snd (select_ipc_gpu env_accepting ''SELECT 1'' None None None None w0))) =
     [Rpc_deallocate_df tdf0 GPU 0]"
  by (simp add: select_ipc_gpu_def deallocate_ipc_gpu_def parse_tdf_gpu_def io_defs env_defs
      get_tdf_def set_tdf_def bind_tdf_methods_def to_pandas_def is_deallocate_def Let_def)


text \<open>
  C6, as the code has it. With a transport that is neither \<open>WIRE\<close> nor \<open>SHARED_MEMORY\<close>,
  \<open>select_ipc\<close> never returns a table. The transport is looked at only after the query
  request: when registering the UDFs, binding the parameters and the query request all
  succeed, the call fails with the \<open>RuntimeError\<close> of the last branch, the request has gone
  out and its descriptor is stored in the connection; when one of them raises, that
  exception is the outcome and the later steps are not taken.
\<close>

theorem select_ipc_unsupported_transport:
  "transport_method = Some (Transport_other k) \<Longrightarrow>
   (\<exists>e. fst (select_ipc env operation parameters first_n release_memory transport_method w)
          = Inl e) \<and>
   (base_register_runtime_udfs env (trace w) = Inr () \<and>
    fst (bind_operation env operation parameters w) = Inr operation' \<and>
    client_sql_execute_df env (trace w @ [Call_register_runtime_udfs]) (strip operation') 0 0
        (with_default (- 1) first_n) (Transport_other k) = Inr tdf \<longrightarrow>
      select_ipc env operation parameters first_n release_memory transport_method w =
        (Inl RuntimeError_transport,
         w\<lparr>trace := trace w @ [Call_register_runtime_udfs,
              Rpc_sql_execute_df (strip operation') 0 0 (with_default (- 1) first_n)
                (Transport_other k)],
           conn_tdf := Some tdf\<rparr>)) \<and>
   (base_register_runtime_udfs env (trace w) = Inl e \<longrightarrow>
      select_ipc env operation parameters first_n release_memory transport_method w =
        (Inl e, w\<lparr>trace := trace w @ [Call_register_runtime_udfs]\<rparr>)) \<and>
   (base_register_runtime_udfs env (trace w) = Inr () \<and>
    fst (bind_operation env operation parameters w) = Inl e \<longrightarrow>
      select_ipc env operation parameters first_n release_memory transport_method w =
        (Inl e, w\<lparr>trace := trace w @ [Call_register_runtime_udfs]\<rparr>)) \<and>
   (base_register_runtime_udfs env (trace w) = Inr () \<and>
    fst (bind_operation env operation parameters w) = Inr operation' \<and>
    client_sql_execute_df env (trace w @ [Call_register_runtime_udfs]) (strip operation') 0 0
        (with_default (- 1) first_n) (Transport_other k) = Inl e \<longrightarrow>
      select_ipc env operation parameters first_n release_memory transport_method w =
        (Inl e,
         w\<lparr>trace := trace w @ [Call_register_runtime_udfs,
              Rpc_sql_execute_df (strip operation') 0 0 (with_default (- 1) first_n)
                (Transport_other k)]\<rparr>))"
  by (auto simp: select_ipc_def io_defs Let_def split: sum.splits prod.splits option.splits)

theorem select_ipc_unsupported_transport_witness:
  "select_ipc env_accepting ''SELECT 1'' None None None (Some (Transport_other 2)) w0 =
     (Inl RuntimeError_transport,
      \<lparr>trace = [Call_register_runtime_udfs,
                Rpc_sql_execute_df ''SELECT 1'' 0 0 (- 1) (Transport_other 2)],
       conn_tdf = Some tdf0\<rparr>) \<and>
   select_ipc (env_accepting\<lparr>bind_parameters := (\<lambda>q ps. Inl (Raised ''ProgrammingError''))\<rparr>)
       ''SELECT :a'' (Some []) None None (Some (Transport_other 2)) w0 =
     (Inl (Raised ''ProgrammingError''),
      \<lparr>trace = [Call_register_runtime_udfs], conn_tdf = None\<rparr>)"
proof -
  have steps:
    "base_register_runtime_udfs env_accepting (trace w0) = Inr () \<and>
     fst (bind_operation env_accepting ''SELECT 1'' None w0) = Inr ''SELECT 1'' \<and>
     client_sql_execute_df env_accepting (trace w0 @ [Call_register_runtime_udfs])
       (strip ''SELECT 1'') 0 0 (with_default (- 1) None) (Transport_other 2) = Inr tdf0"
    by (simp add: io_defs env_defs)
  have binding_fails:
    "base_register_runtime_udfs
       (env_accepting\<lparr>bind_parameters := (\<lambda>q ps. Inl (Raised ''ProgrammingError''))\<rparr>)
       (trace w0) = Inr () \<and>
     fst (bind_operation
            (env_accepting\<lparr>bind_parameters := (\<lambda>q ps. Inl (Raised ''ProgrammingError''))\<rparr>)
            ''SELECT :a'' (Some []) w0) = Inl (Raised ''ProgrammingError'')"
    by (simp add: io_defs env_defs)
  from select_ipc_unsupported_transport [OF refl, of env_accepting "''SELECT 1''" None None
      None 2 w0 "''SELECT 1''" tdf0, THEN conjunct2, THEN conjunct1, THEN mp, OF steps]
  have first:
    "select_ipc env_accepting ''SELECT 1'' None None None (Some (Transport_other 2)) w0 =
       (Inl RuntimeError_transport,
        \<lparr>trace = [Call_register_runtime_udfs,
                  Rpc_sql_execute_df ''SELECT 1'' 0 0 (- 1) (Transport_other 2)],
         conn_tdf = Some tdf0\<rparr>)"
    by (simp add: w0_def with_default_def strip_select_1)
  from select_ipc_unsupported_transport [OF refl,
      of "env_accepting\<lparr>bind_parameters := (\<lambda>q ps. Inl (Raised ''ProgrammingError''))\<rparr>"
        "''SELECT :a''" "Some []" None None 2 w0 _ _ "Raised ''ProgrammingError''",
      THEN conjunct2, THEN conjunct2, THEN conjunct2, THEN conjunct1, THEN mp,
      OF binding_fails]
  have second:
    "select_ipc (env_accepting\<lparr>bind_parameters := (\<lambda>q ps. Inl (Raised ''ProgrammingError''))\<rparr>)
         ''SELECT :a'' (Some []) None None (Some (Transport_other 2)) w0 =
       (Inl (Raised ''ProgrammingError''),
        \<lparr>trace = [Call_register_runtime_udfs], conn_tdf = None\<rparr>)"
    by (simp add: w0_def)
  show ?thesis
    by (rule conjI [OF first second])
qed

text \<open>
  C6, as the claim has it, fails: when the server refuses the query, the call with an
  unknown transport ends with the server's exception, not with the transport error.
\<close>

theorem select_ipc_unsupported_transport_counterexample:
  "select_ipc env_query_refused ''SELECT 1'' None None None (Some (Transport_other 2)) w0 =
     (Inl (Raised ''TDBException''),
      \<lparr>trace = [Call_register_runtime_udfs,
                Rpc_sql_execute_df ''SELECT 1'' 0 0 (- 1) (Transport_other 2)],
       conn_tdf = None\<rparr>)"
  by (simp add: select_ipc_def io_defs env_defs strip_select_1 Let_def)

text \<open>
  C1. The code at the failing input: the segment is attached (\<open>load_buffer\<close> returns), the
  stream in it does not decode, and \<open>select_ipc\<close> ends with the decoder's exception. The
  trace ends with the attach; no \<open>shmdt\<close> was called.
\<close>

theorem select_ipc_decode_error_leaves_segment_attached:
  "select_ipc env_bad_stream ''SELECT 1'' None None None (Some SHARED_MEMORY) w0 =
     (Inl (Raised ''ArrowInvalid''),
      \<lparr>trace = [Call_register_runtime_udfs,
                Rpc_sql_execute_df ''SELECT 1'' 0 0 (- 1) SHARED_MEMORY,
                Call_load_buffer ''key'' 6],
       conn_tdf = Some tdf0\<rparr>)"
  by (simp add: select_ipc_def io_defs env_defs strip_select_1 Let_def)

text \<open>
  On the path where decoding succeeds the detach is there: when a shared-memory fetch
  returns a table, the last call before the optional release was \<open>shmdt\<close>.
\<close>

lemma select_ipc_success_detaches:
  assumes "select_ipc env operation parameters first_n release_memory (Some SHARED_MEMORY) w
             = (Inr df, w')"
  shows "\<exists>ptr. last (filter (\<lambda>ev. \<not> is_deallocate ev) (trace w')) = Call_shmdt ptr"
proof (cases "with_default True release_memory")
  case True
  with assms show ?thesis
    by (auto simp: select_ipc_def Let_def step_eqs register_runtime_udfs_def bind_operation_def
        store_tdf_def shmdt_def deallocate_ipc_fetched with_default_def is_deallocate_def
        split: option.splits)
next
  case False
  with assms show ?thesis
    by (auto simp: select_ipc_def Let_def step_eqs register_runtime_udfs_def bind_operation_def
        store_tdf_def shmdt_def with_default_def is_deallocate_def split: option.splits)
qed


subsection \<open>Load\<close>

lemma keeps_get_tables: "\<not> P Rpc_get_tables \<Longrightarrow> keeps P (get_tables env)"
  by (simp add: get_tables_def keeps_request)

lemma keeps_create_table:
  "(\<And>d. \<not> P (Rpc_create_table table_name d)) \<Longrightarrow>
   keeps P (create_table env table_name data p)"
  unfolding create_table_def by (intro keeps_and_then keeps_local_call keeps_request) simp

lemma keeps_get_table_details:
  "\<not> P (Rpc_get_table_details table_name) \<Longrightarrow> keeps P (get_table_details env table_name)"
  unfolding get_table_details_def by (intro keeps_and_then keeps_local_call keeps_request) simp

lemma keeps_load_table_arrow:
  "\<not> P (Rpc_get_table_details table_name) \<Longrightarrow>
   (\<And>b. \<not> P (Rpc_load_table_binary_arrow table_name b cn)) \<Longrightarrow>
   keeps P (load_table_arrow env table_name data p cn)"
  unfolding load_table_arrow_def
  by (intro keeps_and_then keeps_local_call keeps_request keeps_get_table_details) simp_all

lemma keeps_load_table_rows_part:
  "(\<And>b. \<not> P (Rpc_load_table table_name b cn)) \<Longrightarrow>
   keeps P (load_table_rows_part env table_name data p cn)"
  unfolding load_table_rows_part_def Let_def
  by (intro keeps_and_then keeps_local_call keeps_request) simp

lemma keeps_load_input_cols:
  "(\<And>b. \<not> P (Rpc_load_table_binary_columnar table_name b cn)) \<Longrightarrow>
   keeps P (load_input_cols env table_name cn input_cols)"
  by (induction input_cols) (auto intro!: keeps_and_then keeps_request)

text \<open>The first half of \<open>load_table\<close>, whatever follows it.\<close>

lemma keeps_load_table_create_part:
  "\<not> P Rpc_get_tables \<Longrightarrow> (\<And>d. \<not> P (Rpc_create_table table_name d)) \<Longrightarrow>
   (\<And>c. keeps P (k c)) \<Longrightarrow>
   keeps P (and_then (if py_eq create (PyStr ''infer'') then
                    and_then (get_tables env) (\<lambda>tables.
                      return_value (PyBool (table_name \<notin> set tables)))
                  else return_value create) (\<lambda>create.
        and_then (if truthy create then create_table env table_name data False
                  else return_value ()) (\<lambda>_. k create)))"
  by (intro keeps_and_then keeps_if keeps_get_tables keeps_create_table keeps_return)

lemma keeps_columnar_infer:
  "keeps is_columnar_load
     (load_table env table_name data (PyStr ''infer'') preserve_index create column_names)"
  unfolding load_table_def
  apply (intro keeps_if keeps_raise keeps_load_table_create_part)
    apply (simp_all add: obs_defs)
  apply (auto intro!: keeps_load_table_arrow keeps_load_table_rows_part simp: obs_defs)
  done

lemma keeps_rowwise_infer:
  "is_DataFrame data \<or> is_pa_Table data \<or> is_pa_RecordBatch data \<Longrightarrow>
   keeps is_rowwise_load
     (load_table env table_name data (PyStr ''infer'') preserve_index create column_names)"
  unfolding load_table_def
  apply (intro keeps_if keeps_raise keeps_load_table_create_part)
    apply (simp_all add: obs_defs)
  apply (auto intro!: keeps_load_table_arrow simp: obs_defs)
  done

lemma keeps_arrow_infer:
  "\<not> (is_DataFrame data \<or> is_pa_Table data \<or> is_pa_RecordBatch data) \<Longrightarrow>
   keeps is_arrow_load
     (load_table env table_name data (PyStr ''infer'') preserve_index create column_names)"
  unfolding load_table_def
  apply (intro keeps_if keeps_raise keeps_load_table_create_part)
    apply (simp_all add: obs_defs)
  apply (auto intro!: keeps_load_table_rows_part simp: obs_defs)
  done

lemma keeps_load_rpc_bad_method:
  "\<not> py_in method [PyStr ''infer'', PyStr ''arrow'', PyStr ''columnar'', PyStr ''rows''] \<Longrightarrow>
   keeps is_load_rpc
     (load_table env table_name data method preserve_index create column_names)"
  unfolding load_table_def
  apply (intro keeps_if keeps_raise keeps_load_table_create_part)
    apply (simp_all add: obs_defs)
  done

lemma load_table_arrow_success:
  "load_table_arrow env table_name data p cn w = (Inr (), w') \<Longrightarrow>
   \<exists>payload. last (trace w') = Rpc_load_table_binary_arrow table_name payload cn"
  by (auto simp: load_table_arrow_def get_table_details_def step_eqs)

lemma load_table_rows_part_success:
  "load_table_rows_part env table_name data p cn w = (Inr (), w') \<Longrightarrow>
   \<exists>input_data. last (trace w') = Rpc_load_table table_name input_data cn"
  by (auto simp: load_table_rows_part_def Let_def step_eqs)

lemma load_table_infer_success:
  assumes "load_table env table_name data (PyStr ''infer'') preserve_index create column_names w
             = (Inr (), w')"
  shows "\<exists>w1. (if is_DataFrame data \<or> is_pa_Table data \<or> is_pa_RecordBatch data
               then load_table_arrow env table_name data False [] w1
               else load_table_rows_part env table_name data preserve_index column_names w1)
              = (Inr (), w')"
  using assms
  by (auto simp: load_table_def and_then_Inr raise_eq split: if_splits)

lemma load_table_bad_method_fails:
  assumes "\<not> py_in method [PyStr ''infer'', PyStr ''arrow'', PyStr ''columnar'', PyStr ''rows'']"
  shows "fst (load_table env table_name data method preserve_index create column_names w)
           \<noteq> Inr ()"
proof
  assume "fst (load_table env table_name data method preserve_index create column_names w)
            = Inr ()"
  then obtain w' where
    "load_table env table_name data method preserve_index create column_names w = (Inr (), w')"
    by (cases "load_table env table_name data method preserve_index create column_names w")
       simp
  with assms show False
    by (auto simp: load_table_def and_then_Inr raise_eq split: if_splits)
qed


text \<open>What \<open>load_table\<close> is once the creation step is set apart.\<close>

lemma load_table_bad_method:
  assumes "py_in create [PyStr ''infer'', PyBool True, PyBool False]"
    and "\<not> py_in method [PyStr ''infer'', PyStr ''arrow'', PyStr ''columnar'', PyStr ''rows'']"
  shows "load_table env table_name data method preserve_index create column_names =
           and_then (load_table_create_part env table_name data create)
             (\<lambda>_. raise TypeError_method)"
  using assms
  by (simp add: load_table_def load_table_create_part_def and_then_assoc)

lemma load_table_infer:
  assumes "py_in create [PyStr ''infer'', PyBool True, PyBool False]"
  shows "load_table env table_name data (PyStr ''infer'') preserve_index create column_names =
           and_then (load_table_create_part env table_name data create)
             (\<lambda>_. if is_DataFrame data \<or> is_pa_Table data \<or> is_pa_RecordBatch data
                  then load_table_arrow env table_name data False []
                  else load_table_rows_part env table_name data preserve_index column_names)"
proof (cases "is_DataFrame data \<or> is_pa_Table data \<or> is_pa_RecordBatch data")
  case True
  with assms show ?thesis
    by (simp add: load_table_def load_table_create_part_def and_then_assoc)
next
  case False
  with assms show ?thesis
    by (simp add: load_table_def load_table_create_part_def and_then_assoc)
qed

lemma create_table_run:
  "create_table env table_name data p w =
     (case build_row_desc env data p of
        Inl e \<Rightarrow> (Inl e, w)
      | Inr row_desc \<Rightarrow>
          (client_create_table env (trace w) table_name row_desc,
           w\<lparr>trace := trace w @ [Rpc_create_table table_name row_desc]\<rparr>))"
  by (simp add: create_table_def io_defs split: sum.splits)

lemma load_table_create_part_falsy:
  "\<not> py_eq create (PyStr ''infer'') \<Longrightarrow> \<not> truthy create \<Longrightarrow>
   load_table_create_part env table_name data create = return_value ()"
  by (simp add: load_table_create_part_def and_then_return)

lemma load_table_create_part_truthy:
  "\<not> py_eq create (PyStr ''infer'') \<Longrightarrow> truthy create \<Longrightarrow>
   load_table_create_part env table_name data create = create_table env table_name data False"
  by (simp add: load_table_create_part_def and_then_return)

lemma load_table_create_part_infer:
  "load_table_create_part env table_name data (PyStr ''infer'') w =
     (case client_get_tables env (trace w) of
        Inl e \<Rightarrow> (Inl e, w\<lparr>trace := trace w @ [Rpc_get_tables]\<rparr>)
      | Inr tables \<Rightarrow>
          if table_name \<in> set tables then (Inr (), w\<lparr>trace := trace w @ [Rpc_get_tables]\<rparr>)
          else create_table env table_name data False (w\<lparr>trace := trace w @ [Rpc_get_tables]\<rparr>))"
  by (simp add: load_table_create_part_def get_tables_def io_defs split: sum.splits)


text \<open>
  C5. When \<open>load_table_columnar\<close> is given a data frame and the schema it fetched for the
  table has another number of columns than the frame, the call raises the \<open>ValueError\<close>
  that reports both counts. The only request it has sent is the one for the schema: no
  load request went out.
\<close>

theorem load_table_columnar_column_count_mismatch:
  "get_table_details env table_name w = (Inr table_details, w1) \<Longrightarrow>
   length table_details \<noteq> length (columns df) \<Longrightarrow>
   load_table_columnar env table_name (PdDataFrame df) preserve_index chunk_size_bytes
       col_names_from_schema column_names w =
     (Inl (ValueError_columns (length (columns df)) (length table_details)), w1) \<and>
   trace w1 = trace w @ [Rpc_get_table_details table_name] \<and>
   filter is_load_rpc (trace w1) = filter is_load_rpc (trace w)"
  by (auto simp: load_table_columnar_def get_table_details_def io_defs obs_defs
      split: sum.splits prod.splits)

theorem load_table_columnar_column_count_mismatch_witness:
  "load_table_columnar env_accepting ''t'' (PdDataFrame df_two_columns) False 0 False [] w0 =
     (Inl (ValueError_columns 2 1),
      \<lparr>trace = [Rpc_get_table_details ''t''], conn_tdf = None\<rparr>)"
proof -
  have schema:
    "get_table_details env_accepting ''t'' w0 =
       (Inr [\<lparr>name = ''a'', type_name = ''INT''\<rparr>],
        \<lparr>trace = [Rpc_get_table_details ''t''], conn_tdf = None\<rparr>)"
    by (simp add: get_table_details_def io_defs env_defs)
  have differ:
    "length [\<lparr>name = ''a'', type_name = ''INT''\<rparr>] \<noteq> length (columns df_two_columns)"
    by (simp add: df_two_columns_def)
  from load_table_columnar_column_count_mismatch [OF schema differ, of False 0 False "[]"]
  show ?thesis
    by (simp add: df_two_columns_def)
qed

text \<open>
  C3, as the code has it. A \<open>create\<close> value outside \<open>{'infer', True, False}\<close> is rejected
  first: the call raises \<open>ValueError\<close> and the world is untouched. A \<open>method\<close> value outside
  \<open>{'infer', 'arrow', 'columnar', 'rows'}\<close> is rejected only where the loader is chosen:
  the call is the creation step followed by \<open>TypeError\<close>. So it never succeeds and never
  sends a load request; with a false \<open>create\<close> it sends nothing; with \<open>create='infer'\<close> the
  table query has gone out, and if that fails its exception is the outcome; and where the
  table is created (it is missing under \<open>'infer'\<close>, or \<open>create\<close> is true) the creation
  request has gone out before the \<open>TypeError\<close>.
\<close>

theorem load_table_literal_validation:
  "(\<not> py_in create [PyStr ''infer'', PyBool True, PyBool False] \<longrightarrow>
      load_table env table_name data method preserve_index create column_names w =
        (Inl ValueError_create, w)) \<and>
   (\<not> py_in method [PyStr ''infer'', PyStr ''arrow'', PyStr ''columnar'', PyStr ''rows''] \<longrightarrow>
      fst (load_table env table_name data method preserve_index create column_names w)
        \<noteq> Inr () \<and>
      filter is_load_rpc
        (trace (snd (load_table env table_name data method preserve_index create
                       column_names w))) = filter is_load_rpc (trace w)) \<and>
   (py_in create [PyStr ''infer'', PyBool True, PyBool False] \<and>
    \<not> py_in method [PyStr ''infer'', PyStr ''arrow'', PyStr ''columnar'', PyStr ''rows''] \<longrightarrow>
      load_table env table_name data method preserve_index create column_names w =
        and_then (load_table_create_part env table_name data create)
          (\<lambda>_. raise TypeError_method) w \<and>
      (\<not> truthy create \<longrightarrow>
         load_table env table_name data method preserve_index create column_names w =
           (Inl TypeError_method, w)) \<and>
      (create = PyStr ''infer'' \<and> client_get_tables env (trace w) = Inl e \<longrightarrow>
         load_table env table_name data method preserve_index create column_names w =
           (Inl e, w\<lparr>trace := trace w @ [Rpc_get_tables]\<rparr>)) \<and>
      (create = PyStr ''infer'' \<and> client_get_tables env (trace w) = Inr tables \<and>
       table_name \<in> set tables \<longrightarrow>
         load_table env table_name data method preserve_index create column_names w =
           (Inl TypeError_method, w\<lparr>trace := trace w @ [Rpc_get_tables]\<rparr>)) \<and>
      (create = PyStr ''infer'' \<and> client_get_tables env (trace w) = Inr tables \<and>
       table_name \<notin> set tables \<and> build_row_desc env data False = Inr row_desc \<and>
       client_create_table env (trace w @ [Rpc_get_tables]) table_name row_desc = Inr () \<longrightarrow>
         load_table env table_name data method preserve_index create column_names w =
           (Inl TypeError_method,
            w\<lparr>trace := trace w @ [Rpc_get_tables, Rpc_create_table table_name row_desc]\<rparr>)) \<and>
      (create \<noteq> PyStr ''infer'' \<and> truthy create \<and>
       build_row_desc env data False = Inr row_desc \<and>
       client_create_table env (trace w) table_name row_desc = Inr () \<longrightarrow>
         load_table env table_name data method preserve_index create column_names w =
           (Inl TypeError_method,
            w\<lparr>trace := trace w @ [Rpc_create_table table_name row_desc]\<rparr>)))"
proof -
  have bad_create:
    "load_table env table_name data method preserve_index create column_names w =
       (Inl ValueError_create, w)"
    if "\<not> py_in create [PyStr ''infer'', PyBool True, PyBool False]"
    using that by (simp add: load_table_def raise_def)
  have never_succeeds:
    "fst (load_table env table_name data method preserve_index create column_names w)
       \<noteq> Inr ()"
    if "\<not> py_in method [PyStr ''infer'', PyStr ''arrow'', PyStr ''columnar'', PyStr ''rows'']"
    using that by (rule load_table_bad_method_fails)
  have no_load:
    "filter is_load_rpc
       (trace (snd (load_table env table_name data method preserve_index create
                      column_names w))) = filter is_load_rpc (trace w)"
    if "\<not> py_in method [PyStr ''infer'', PyStr ''arrow'', PyStr ''columnar'', PyStr ''rows'']"
    using that by (rule keeps_snd [OF keeps_load_rpc_bad_method])
  have rest: ?thesis
    if good: "py_in create [PyStr ''infer'', PyBool True, PyBool False]"
      and bad: "\<not> py_in method [PyStr ''infer'', PyStr ''arrow'', PyStr ''columnar'', PyStr ''rows'']"
  proof -
    note run = load_table_bad_method [OF good bad, of env table_name data preserve_index
        column_names]
    have falsy:
      "load_table env table_name data method preserve_index create column_names w =
         (Inl TypeError_method, w)"
      if "\<not> truthy create"
    proof -
      from that have "\<not> py_eq create (PyStr ''infer'')"
        by (cases create) auto
      with that show ?thesis
        unfolding run
        by (simp add: load_table_create_part_falsy and_then_return raise_def)
    qed
    have query_fails:
      "load_table env table_name data method preserve_index create column_names w =
         (Inl e, w\<lparr>trace := trace w @ [Rpc_get_tables]\<rparr>)"
      if "create = PyStr ''infer''" "client_get_tables env (trace w) = Inl e"
      using that unfolding run by (simp add: and_then_def load_table_create_part_infer)
    have present:
      "load_table env table_name data method preserve_index create column_names w =
         (Inl TypeError_method, w\<lparr>trace := trace w @ [Rpc_get_tables]\<rparr>)"
      if "create = PyStr ''infer''" "client_get_tables env (trace w) = Inr tables"
        "table_name \<in> set tables"
      using that unfolding run
      by (simp add: and_then_def load_table_create_part_infer raise_def)
    have missing:
      "load_table env table_name data method preserve_index create column_names w =
         (Inl TypeError_method,
          w\<lparr>trace := trace w @ [Rpc_get_tables, Rpc_create_table table_name row_desc]\<rparr>)"
      if "create = PyStr ''infer''" "client_get_tables env (trace w) = Inr tables"
        "table_name \<notin> set tables" "build_row_desc env data False = Inr row_desc"
        "client_create_table env (trace w @ [Rpc_get_tables]) table_name row_desc = Inr ()"
      using that unfolding run
      by (simp add: and_then_def load_table_create_part_infer create_table_run raise_def)
    have forced:
      "load_table env table_name data method preserve_index create column_names w =
         (Inl TypeError_method,
          w\<lparr>trace := trace w @ [Rpc_create_table table_name row_desc]\<rparr>)"
      if "create \<noteq> PyStr ''infer''" "truthy create"
        "build_row_desc env data False = Inr row_desc"
        "client_create_table env (trace w) table_name row_desc = Inr ()"
    proof -
      from that(1) have "\<not> py_eq create (PyStr ''infer'')"
        by (cases create) auto
      with that show ?thesis
        unfolding run
        by (simp add: load_table_create_part_truthy and_then_def create_table_run raise_def)
    qed
    from good bad run never_succeeds no_load falsy query_fails present missing forced
    show ?thesis
      by simp
  qed
  show ?thesis
  proof (cases "py_in create [PyStr ''infer'', PyBool True, PyBool False] \<and>
      \<not> py_in method [PyStr ''infer'', PyStr ''arrow'', PyStr ''columnar'', PyStr ''rows'']")
    case True
    then show ?thesis
      using rest by blast
  next
    case False
    with bad_create never_succeeds no_load show ?thesis
      by blast
  qed
qed

theorem load_table_literal_validation_witness:
  "load_table env_accepting ''t'' (PdDataFrame df_two_columns) (PyStr ''rows'') False
       (PyStr ''maybe'') [] w0 = (Inl ValueError_create, w0) \<and>
   load_table env_accepting ''t'' (PdDataFrame df_two_columns) (PyStr ''bogus'') False
       (PyBool False) [] w0 = (Inl TypeError_method, w0) \<and>
   load_table env_accepting ''new'' (PdDataFrame df_two_columns) (PyStr ''bogus'') False
       (PyBool True) [] w0 =
     (Inl TypeError_method,
      \<lparr>trace = [Rpc_create_table ''new''
                  [\<lparr>col_name = ''a'', col_type = ''BIGINT''\<rparr>,
                   \<lparr>col_name = ''b'', col_type = ''STR''\<rparr>]],
       conn_tdf = None\<rparr>)"
proof -
  have bad_create: "\<not> py_in (PyStr ''maybe'') [PyStr ''infer'', PyBool True, PyBool False]"
    by simp
  have bad_method:
    "\<not> py_in (PyStr ''bogus'') [PyStr ''infer'', PyStr ''arrow'', PyStr ''columnar'', PyStr ''rows'']"
    by simp
  have off:
    "py_in (PyBool False) [PyStr ''infer'', PyBool True, PyBool False] \<and>
     \<not> py_in (PyStr ''bogus'') [PyStr ''infer'', PyStr ''arrow'', PyStr ''columnar'', PyStr ''rows'']"
    by simp
  have on:
    "py_in (PyBool True) [PyStr ''infer'', PyBool True, PyBool False] \<and>
     \<not> py_in (PyStr ''bogus'') [PyStr ''infer'', PyStr ''arrow'', PyStr ''columnar'', PyStr ''rows'']"
    by simp
  have not_truthy: "\<not> truthy (PyBool False)"
    by simp
  have created:
    "PyBool True \<noteq> PyStr ''infer'' \<and> truthy (PyBool True) \<and>
     build_row_desc env_accepting (PdDataFrame df_two_columns) False =
       Inr [\<lparr>col_name = ''a'', col_type = ''BIGINT''\<rparr>, \<lparr>col_name = ''b'', col_type = ''STR''\<rparr>] \<and>
     client_create_table env_accepting (trace w0) ''new''
       [\<lparr>col_name = ''a'', col_type = ''BIGINT''\<rparr>, \<lparr>col_name = ''b'', col_type = ''STR''\<rparr>]
       = Inr ()"
    by (simp add: env_defs)
  note first = load_table_literal_validation [of "PyStr ''maybe''" env_accepting "''t''"
      "PdDataFrame df_two_columns" "PyStr ''rows''" False "[]" w0,
      THEN conjunct1, THEN mp, OF bad_create]
  note second = load_table_literal_validation [of "PyBool False" env_accepting "''t''"
      "PdDataFrame df_two_columns" "PyStr ''bogus''" False "[]" w0,
      THEN conjunct2, THEN conjunct2, THEN mp, OF off,
      THEN conjunct2, THEN conjunct1, THEN mp, OF not_truthy]
  from load_table_literal_validation [of "PyBool True" env_accepting "''new''"
      "PdDataFrame df_two_columns" "PyStr ''bogus''" False "[]" w0 _ _
      "[\<lparr>col_name = ''a'', col_type = ''BIGINT''\<rparr>, \<lparr>col_name = ''b'', col_type = ''STR''\<rparr>]",
      THEN conjunct2, THEN conjunct2, THEN mp, OF on,
      THEN conjunct2, THEN conjunct2, THEN conjunct2, THEN conjunct2, THEN conjunct2,
      THEN mp, OF created]
  have third:
    "load_table env_accepting ''new'' (PdDataFrame df_two_columns) (PyStr ''bogus'') False
         (PyBool True) [] w0 =
       (Inl TypeError_method,
        \<lparr>trace = [Rpc_create_table ''new''
                    [\<lparr>col_name = ''a'', col_type = ''BIGINT''\<rparr>,
                     \<lparr>col_name = ''b'', col_type = ''STR''\<rparr>]],
         conn_tdf = None\<rparr>)"
    by (simp add: w0_def)
  show ?thesis
    by (rule conjI [OF first conjI [OF second third]])
qed

text \<open>
  C3, as the claim has it, fails: with an unknown \<open>method\<close> and the default
  \<open>create='infer'\<close>, loading a data frame into a table that does not exist yet queries
  the table list and creates the table before \<open>TypeError\<close> is raised.
\<close>

theorem load_table_bad_method_counterexample:
  "load_table env_accepting ''new'' (PdDataFrame df_two_columns) (PyStr ''bogus'') False
       (PyStr ''infer'') [] w0 =
     (Inl TypeError_method,
      \<lparr>trace = [Rpc_get_tables,
                Rpc_create_table ''new''
                  [\<lparr>col_name = ''a'', col_type = ''BIGINT''\<rparr>,
                   \<lparr>col_name = ''b'', col_type = ''STR''\<rparr>]],
       conn_tdf = None\<rparr>)"
  by (simp add: load_table_def create_table_def get_tables_def io_defs env_defs)

text \<open>
  C4, as the code has it. With \<open>method='infer'\<close> the call is the creation step followed by
  one loader: the Arrow loader for a pandas data frame, a pyarrow table and a pyarrow
  record batch, and the row-wise part for every other kind of data. The columnar loader is
  never used. So the call sends no columnar load request; for the three Arrow kinds it
  sends no row-wise load request and, when it succeeds, its last request is the Arrow
  load; for any other data it sends no Arrow load request and, when it succeeds, its last
  request is the row-wise load.
\<close>

theorem load_table_infer_dispatch:
  "(py_in create [PyStr ''infer'', PyBool True, PyBool False] \<longrightarrow>
      (is_DataFrame data \<or> is_pa_Table data \<or> is_pa_RecordBatch data \<longrightarrow>
         load_table env table_name data (PyStr ''infer'') preserve_index create column_names w =
           and_then (load_table_create_part env table_name data create)
             (\<lambda>_. load_table_arrow env table_name data False []) w) \<and>
      (\<not> (is_DataFrame data \<or> is_pa_Table data \<or> is_pa_RecordBatch data) \<longrightarrow>
         load_table env table_name data (PyStr ''infer'') preserve_index create column_names w =
           and_then (load_table_create_part env table_name data create)
             (\<lambda>_. load_table_rows_part env table_name data preserve_index column_names) w) \<and>
      (\<not> truthy create \<longrightarrow>
         (is_DataFrame data \<or> is_pa_Table data \<or> is_pa_RecordBatch data \<longrightarrow>
            load_table env table_name data (PyStr ''infer'') preserve_index create
                column_names w = load_table_arrow env table_name data False [] w) \<and>
         (\<not> (is_DataFrame data \<or> is_pa_Table data \<or> is_pa_RecordBatch data) \<longrightarrow>
            load_table env table_name data (PyStr ''infer'') preserve_index create
                column_names w =
              load_table_rows_part env table_name data preserve_index column_names w))) \<and>
   filter is_columnar_load
     (trace (snd (load_table env table_name data (PyStr ''infer'') preserve_index create
                    column_names w))) = filter is_columnar_load (trace w) \<and>
   (is_DataFrame data \<or> is_pa_Table data \<or> is_pa_RecordBatch data \<longrightarrow>
      filter is_rowwise_load
        (trace (snd (load_table env table_name data (PyStr ''infer'') preserve_index create
                       column_names w))) = filter is_rowwise_load (trace w) \<and>
      (fst (load_table env table_name data (PyStr ''infer'') preserve_index create
              column_names w) = Inr () \<longrightarrow>
         (\<exists>payload.
            last (trace (snd (load_table env table_name data (PyStr ''infer'') preserve_index
                                create column_names w)))
              = Rpc_load_table_binary_arrow table_name payload []))) \<and>
   (\<not> (is_DataFrame data \<or> is_pa_Table data \<or> is_pa_RecordBatch data) \<longrightarrow>
      filter is_arrow_load
        (trace (snd (load_table env table_name data (PyStr ''infer'') preserve_index create
                       column_names w))) = filter is_arrow_load (trace w) \<and>
      (fst (load_table env table_name data (PyStr ''infer'') preserve_index create
              column_names w) = Inr () \<longrightarrow>
         (\<exists>input_data.
            last (trace (snd (load_table env table_name data (PyStr ''infer'') preserve_index
                                create column_names w)))
              = Rpc_load_table table_name input_data column_names)))"
proof -
  obtain r w' where run:
    "load_table env table_name data (PyStr ''infer'') preserve_index create column_names w
       = (r, w')"
    by (cases "load_table env table_name data (PyStr ''infer'') preserve_index create
                 column_names w")
  have columnar: "filter is_columnar_load (trace w') = filter is_columnar_load (trace w)"
    using keeps_columnar_infer run by (rule keepsD)
  have rowwise: "filter is_rowwise_load (trace w') = filter is_rowwise_load (trace w)"
    if "is_DataFrame data \<or> is_pa_Table data \<or> is_pa_RecordBatch data"
    using keeps_rowwise_infer [OF that] run by (rule keepsD)
  have arrow: "filter is_arrow_load (trace w') = filter is_arrow_load (trace w)"
    if "\<not> (is_DataFrame data \<or> is_pa_Table data \<or> is_pa_RecordBatch data)"
    using keeps_arrow_infer [OF that] run by (rule keepsD)
  have last_arrow: "\<exists>payload. last (trace w') = Rpc_load_table_binary_arrow table_name payload []"
    if "is_DataFrame data \<or> is_pa_Table data \<or> is_pa_RecordBatch data" and "r = Inr ()"
  proof -
    from load_table_infer_success [of env table_name data preserve_index create column_names
        w w'] run that
    obtain w1 where "load_table_arrow env table_name data False [] w1 = (Inr (), w')"
      by auto
    then show ?thesis
      by (rule load_table_arrow_success)
  qed
  have last_rows:
    "\<exists>input_data. last (trace w') = Rpc_load_table table_name input_data column_names"
    if "\<not> (is_DataFrame data \<or> is_pa_Table data \<or> is_pa_RecordBatch data)" and "r = Inr ()"
  proof -
    from load_table_infer_success [of env table_name data preserve_index create column_names
        w w'] run that
    obtain w1 where
      "load_table_rows_part env table_name data preserve_index column_names w1 = (Inr (), w')"
      by auto
    then show ?thesis
      by (rule load_table_rows_part_success)
  qed
  have observed:
    "filter is_columnar_load
       (trace (snd (load_table env table_name data (PyStr ''infer'') preserve_index create
                      column_names w))) = filter is_columnar_load (trace w) \<and>
     (is_DataFrame data \<or> is_pa_Table data \<or> is_pa_RecordBatch data \<longrightarrow>
        filter is_rowwise_load
          (trace (snd (load_table env table_name data (PyStr ''infer'') preserve_index create
                         column_names w))) = filter is_rowwise_load (trace w) \<and>
        (fst (load_table env table_name data (PyStr ''infer'') preserve_index create
                column_names w) = Inr () \<longrightarrow>
           (\<exists>payload.
              last (trace (snd (load_table env table_name data (PyStr ''infer'') preserve_index
                                  create column_names w)))
                = Rpc_load_table_binary_arrow table_name payload []))) \<and>
     (\<not> (is_DataFrame data \<or> is_pa_Table data \<or> is_pa_RecordBatch data) \<longrightarrow>
        filter is_arrow_load
          (trace (snd (load_table env table_name data (PyStr ''infer'') preserve_index create
                         column_names w))) = filter is_arrow_load (trace w) \<and>
        (fst (load_table env table_name data (PyStr ''infer'') preserve_index create
                column_names w) = Inr () \<longrightarrow>
           (\<exists>input_data.
              last (trace (snd (load_table env table_name data (PyStr ''infer'') preserve_index
                                  create column_names w)))
                = Rpc_load_table table_name input_data column_names)))"
    using columnar rowwise arrow last_arrow last_rows
    unfolding run fst_conv snd_conv by blast
  have chosen:
    "(is_DataFrame data \<or> is_pa_Table data \<or> is_pa_RecordBatch data \<longrightarrow>
         load_table env table_name data (PyStr ''infer'') preserve_index create column_names w =
           and_then (load_table_create_part env table_name data create)
             (\<lambda>_. load_table_arrow env table_name data False []) w) \<and>
      (\<not> (is_DataFrame data \<or> is_pa_Table data \<or> is_pa_RecordBatch data) \<longrightarrow>
         load_table env table_name data (PyStr ''infer'') preserve_index create column_names w =
           and_then (load_table_create_part env table_name data create)
             (\<lambda>_. load_table_rows_part env table_name data preserve_index column_names) w) \<and>
      (\<not> truthy create \<longrightarrow>
         (is_DataFrame data \<or> is_pa_Table data \<or> is_pa_RecordBatch data \<longrightarrow>
            load_table env table_name data (PyStr ''infer'') preserve_index create
                column_names w = load_table_arrow env table_name data False [] w) \<and>
         (\<not> (is_DataFrame data \<or> is_pa_Table data \<or> is_pa_RecordBatch data) \<longrightarrow>
            load_table env table_name data (PyStr ''infer'') preserve_index create
                column_names w =
              load_table_rows_part env table_name data preserve_index column_names w))"
    if good: "py_in create [PyStr ''infer'', PyBool True, PyBool False]"
  proof -
    note whole = load_table_infer [OF good, of env table_name data preserve_index column_names]
    have falsy: "load_table_create_part env table_name data create = return_value ()"
      if "\<not> truthy create"
    proof -
      from that have "\<not> py_eq create (PyStr ''infer'')"
        by (cases create) auto
      then show ?thesis
        using that by (rule load_table_create_part_falsy)
    qed
    show ?thesis
      unfolding whole by (auto simp: falsy and_then_return)
  qed
  from chosen observed show ?thesis
    by blast
qed

theorem load_table_infer_dispatch_witness:
  "load_table env_accepting ''t'' (PdDataFrame df_one_column) (PyStr ''infer'') False
       (PyBool False) [] w0 =
     (Inr (),
      \<lparr>trace = [Rpc_get_table_details ''t'', Rpc_load_table_binary_arrow ''t'' ''payload'' []],
       conn_tdf = None\<rparr>) \<and>
   load_table env_accepting ''t'' (Rows [[PyInt 1]]) (PyStr ''infer'') False (PyBool False) []
       w0 =
     (Inr (), \<lparr>trace = [Rpc_load_table ''t'' [[PyInt 1]] []], conn_tdf = None\<rparr>)"
proof -
  have off:
    "py_in (PyBool False) [PyStr ''infer'', PyBool True, PyBool False]"
    by simp
  have not_truthy: "\<not> truthy (PyBool False)"
    by simp
  have frame:
    "is_DataFrame (PdDataFrame df_one_column) \<or> is_pa_Table (PdDataFrame df_one_column) \<or>
     is_pa_RecordBatch (PdDataFrame df_one_column)"
    by (simp add: is_DataFrame_def)
  have tuples:
    "\<not> (is_DataFrame (Rows [[PyInt 1]]) \<or> is_pa_Table (Rows [[PyInt 1]]) \<or>
        is_pa_RecordBatch (Rows [[PyInt 1]]))"
    by (simp add: is_DataFrame_def is_pa_Table_def is_pa_RecordBatch_def)
  have arrow_run:
    "load_table_arrow env_accepting ''t'' (PdDataFrame df_one_column) False [] w0 =
       (Inr (),
        \<lparr>trace = [Rpc_get_table_details ''t'',
                  Rpc_load_table_binary_arrow ''t'' ''payload'' []],
         conn_tdf = None\<rparr>)"
    by (simp add: load_table_arrow_def get_table_details_def io_defs env_defs)
  have rows_run:
    "load_table_rows_part env_accepting ''t'' (Rows [[PyInt 1]]) False [] w0 =
       (Inr (), \<lparr>trace = [Rpc_load_table ''t'' [[PyInt 1]] []], conn_tdf = None\<rparr>)"
    by (simp add: load_table_rows_part_def io_defs env_defs)
  note first = load_table_infer_dispatch [of "PyBool False" "PdDataFrame df_one_column"
      env_accepting "''t''" False "[]" w0,
      THEN conjunct1, THEN mp, OF off,
      THEN conjunct2, THEN conjunct2, THEN mp, OF not_truthy, THEN conjunct1, THEN mp, OF frame]
  note second = load_table_infer_dispatch [of "PyBool False" "Rows [[PyInt 1]]"
      env_accepting "''t''" False "[]" w0,
      THEN conjunct1, THEN mp, OF off,
      THEN conjunct2, THEN conjunct2, THEN mp, OF not_truthy, THEN conjunct2, THEN mp, OF tuples]
  show ?thesis
    by (rule conjI [OF trans [OF first arrow_run] trans [OF second rows_run]])
qed

text \<open>
  C4, as the claim has it, fails: data that is neither one of the three Arrow kinds nor a
  sequence of tuples (say a two-dimensional array) is sent, under \<open>method='infer'\<close>, with
  the row-wise request, not with the columnar one.
\<close>

theorem load_table_infer_other_data_counterexample:
  "load_table env_accepting ''t'' (Other ''ndarray'') (PyStr ''infer'') False (PyBool False) []
       w0 =
     (Inr (), \<lparr>trace = [Rpc_load_table ''t'' [[PyInt 1]] []], conn_tdf = None\<rparr>)"
  by (simp add: load_table_def load_table_rows_part_def io_defs env_defs is_DataFrame_def
      is_pa_Table_def is_pa_RecordBatch_def)


end
